theory Spec2Isabelle
  imports Complex_Main "HOL-Library.AList"
begin

section \<open>Python values and dictionaries\<close>

text \<open>
  The values that occur in the dictionaries handled by
  \<^verbatim>\<open>QueryComponent.get_all_stations_for_event\<close> (lasif/components/query.py):
  \<^verbatim>\<open>None\<close>, numbers and strings. The code never computes with a number; it
  only tests \<^verbatim>\<open>is not None\<close> and truthiness, so a number is a \<open>real\<close>
  and the only fact used about it is whether it is zero.
\<close>

datatype pyval = PyNone | PyFloat real | PyStr string

datatype error = NotFoundError | DuplicateNameError | KeyError | AttributeError | OtherError string

text \<open>
  A Python \<^verbatim>\<open>dict\<close> is an association list in insertion order. \<open>getitem\<close> is
  \<^verbatim>\<open>d[k]\<close> (raising \<^verbatim>\<open>KeyError\<close> on a missing key), \<open>contains\<close> is
  \<^verbatim>\<open>k in d\<close> and \<open>setitem\<close> is \<^verbatim>\<open>d[k] = v\<close>: it replaces the value of a
  key that is present and appends a new key at the end.
\<close>

type_synonym ('k, 'v) dict = "('k \<times> 'v) list"

type_synonym pydict = "(string, pyval) dict"

definition getitem :: "('k, 'v) dict \<Rightarrow> 'k \<Rightarrow> error + 'v" where
  "getitem d k = (case map_of d k of None \<Rightarrow> Inl KeyError | Some v \<Rightarrow> Inr v)"

definition contains :: "('k, 'v) dict \<Rightarrow> 'k \<Rightarrow> bool" where
  "contains d k = (map_of d k \<noteq> None)"

definition setitem :: "('k, 'v) dict \<Rightarrow> 'k \<Rightarrow> 'v \<Rightarrow> ('k, 'v) dict" where
  "setitem d k v = AList.update k v d"

text \<open>Truthiness, as in \<^verbatim>\<open>if coords["latitude"]:\<close>.\<close>

fun truthy :: "pyval \<Rightarrow> bool" where
  "truthy PyNone = False"
| "truthy (PyFloat x) = (x \<noteq> 0)"
| "truthy (PyStr s) = (s \<noteq> [])"

text \<open>
  The conversion \<^verbatim>\<open>%s\<close> of a value. The text of a float is produced by
  Python itself; it is the parameter \<open>float_str\<close> of the model.
\<close>

fun format_s :: "(real \<Rightarrow> string) \<Rightarrow> pyval \<Rightarrow> string" where
  "format_s float_str PyNone = ''None''"
| "format_s float_str (PyFloat x) = float_str x"
| "format_s float_str (PyStr s) = s"

section \<open>The communicator and the components\<close>

text \<open>
  The components that \<^verbatim>\<open>get_all_stations_for_event\<close> reaches through the
  communicator are not among the sources; each is the function behind the method that
  the code calls, and each may raise.
  \<^item> \<open>Events_Component\<close>: \<^verbatim>\<open>events.get(event_name)\<close>;
  \<^item> \<open>Waveforms_Component\<close>: \<^verbatim>\<open>waveforms.get_metadata_raw(event_name)\<close>;
  \<^item> \<open>Stations_Component\<close>: \<^verbatim>\<open>stations.get_all_channels_at_time(time)\<close>;
  \<^item> \<open>Inventory_Component\<close>: \<^verbatim>\<open>inventory_db.get_all_coordinates()\<close>, which reads
    the state \<open>'s\<close> of the inventory database, and
    \<^verbatim>\<open>inventory_db.get_coordinates(station_id)\<close>, which may change it;
  \<^item> \<open>Other_Component\<close>: any component with none of these methods.
\<close>

datatype 's component =
    Events_Component "string \<Rightarrow> error + pydict"
  | Waveforms_Component "string \<Rightarrow> error + pydict list"
  | Stations_Component "pyval \<Rightarrow> error + (pyval, pydict) dict"
  | Inventory_Component "'s \<Rightarrow> error + (string, pydict) dict"
                        "string \<Rightarrow> 's \<Rightarrow> (error + pydict) \<times> 's"
  | Other_Component

type_synonym 's communicator = "(string, 's component) dict"

text \<open>
  Modelled from the spec: the communicator (lasif/components/communicator.py is not among
  the sources). \<open>register\<close> binds a name to a component and fails with
  \<open>DuplicateNameError\<close> when the name is bound; \<open>get\<close> (the attribute access
  \<^verbatim>\<open>self.comm.name\<close>) fails with \<open>NotFoundError\<close> when the name is unbound.
\<close>

definition register :: "string \<Rightarrow> 's component \<Rightarrow> 's communicator \<Rightarrow> error + 's communicator" where
  "register component_name c comm =
     (if contains comm component_name then Inl DuplicateNameError
      else Inr (setitem comm component_name c))"

definition get :: "'s communicator \<Rightarrow> string \<Rightarrow> error + 's component" where
  "get comm component_name =
     (case map_of comm component_name of None \<Rightarrow> Inl NotFoundError | Some c \<Rightarrow> Inr c)"

text \<open>
  Looking a method up on a component: a component without the method raises
  \<^verbatim>\<open>AttributeError\<close>.
\<close>

fun events_get :: "'s component \<Rightarrow> error + (string \<Rightarrow> error + pydict)" where
  "events_get (Events_Component f) = Inr f"
| "events_get _ = Inl AttributeError"

fun waveforms_get_metadata_raw :: "'s component \<Rightarrow> error + (string \<Rightarrow> error + pydict list)" where
  "waveforms_get_metadata_raw (Waveforms_Component f) = Inr f"
| "waveforms_get_metadata_raw _ = Inl AttributeError"

fun stations_get_all_channels_at_time ::
  "'s component \<Rightarrow> error + (pyval \<Rightarrow> error + (pyval, pydict) dict)" where
  "stations_get_all_channels_at_time (Stations_Component f) = Inr f"
| "stations_get_all_channels_at_time _ = Inl AttributeError"

fun inventory_get_all_coordinates ::
  "'s component \<Rightarrow> error + ('s \<Rightarrow> error + (string, pydict) dict)" where
  "inventory_get_all_coordinates (Inventory_Component f g) = Inr f"
| "inventory_get_all_coordinates _ = Inl AttributeError"

fun inventory_get_coordinates ::
  "'s component \<Rightarrow> error + (string \<Rightarrow> 's \<Rightarrow> (error + pydict) \<times> 's)" where
  "inventory_get_coordinates (Inventory_Component f g) = Inr g"
| "inventory_get_coordinates _ = Inl AttributeError"

section \<open>The query component\<close>

text \<open>
  Every call of a method of another component is recorded, in order, so that the
  properties about which calls a query makes can be stated.
\<close>

datatype call =
    Call_events_get string
  | Call_get_metadata_raw string
  | Call_get_all_channels_at_time pyval
  | Call_get_all_coordinates
  | Call_get_coordinates string

type_synonym stations = "(string, pydict) dict"

text \<open>
  The outcome of a piece of the query: the exception raised or the dictionary built so
  far, the state of the inventory database, and the calls made so far.
\<close>

type_synonym 's outcome = "(error + stations) \<times> 's \<times> call list"

text \<open>\<^verbatim>\<open>station_id = "%s.%s" % (waveform["network"], waveform["station"])\<close>\<close>

definition station_id_of :: "(real \<Rightarrow> string) \<Rightarrow> pydict \<Rightarrow> error + string" where
  "station_id_of float_str waveform =
     (case getitem waveform ''network'' of
        Inl e \<Rightarrow> Inl e
      | Inr n \<Rightarrow>
          (case getitem waveform ''station'' of
             Inl e \<Rightarrow> Inl e
           | Inr st \<Rightarrow> Inr (format_s float_str n @ ''.'' @ format_s float_str st)))"

text \<open>
  \<^verbatim>\<open>
  try:
      stat_coords = station_coordinates[waveform["channel_id"]]
  except KeyError:
      # No station file for channel.
      continue
  \<close>
  Both subscripts are inside the \<^verbatim>\<open>try\<close>; \<open>None\<close> is the \<^verbatim>\<open>continue\<close>.
\<close>

definition lookup_stat_coords :: "(pyval, pydict) dict \<Rightarrow> pydict \<Rightarrow> pydict option" where
  "lookup_stat_coords station_coordinates waveform =
     (case getitem waveform ''channel_id'' of
        Inl e \<Rightarrow> None
      | Inr channel_id \<Rightarrow>
          (case getitem station_coordinates channel_id of
             Inl e \<Rightarrow> None
           | Inr stat_coords \<Rightarrow> Some stat_coords))"

text \<open>
  The part of the loop body after the station file and the waveform metadata gave no
  latitude: the entry of the inventory database, and the new query as the last resort.
  \<open>live\<close> is \<^verbatim>\<open>self.comm.inventory_db.get_coordinates\<close>.
\<close>

definition from_inventory ::
  "(string, pydict) dict \<Rightarrow> (string \<Rightarrow> 's \<Rightarrow> (error + pydict) \<times> 's) \<Rightarrow>
   string \<Rightarrow> stations \<Rightarrow> 's \<Rightarrow> call list \<Rightarrow> 's outcome" where
  "from_inventory inventory_coordinates live station_id stations s calls =
     (if contains inventory_coordinates station_id then
        (case getitem inventory_coordinates station_id of
           Inl e \<Rightarrow> (Inl e, s, calls)
         | Inr coords \<Rightarrow>
             (case getitem coords ''latitude'' of
                Inl e \<Rightarrow> (Inl e, s, calls)
              | Inr lat \<Rightarrow>
                  if truthy lat then (Inr (setitem stations station_id coords), s, calls)
                  else (Inr stations, s, calls)))
      else
        (case live station_id s of
           (Inl e, s') \<Rightarrow> (Inl e, s', calls @ [Call_get_coordinates station_id])
         | (Inr coords, s') \<Rightarrow>
             (case getitem coords ''latitude'' of
                Inl e \<Rightarrow> (Inl e, s', calls @ [Call_get_coordinates station_id])
              | Inr lat \<Rightarrow>
                  if truthy lat
                  then (Inr (setitem stations station_id coords), s',
                        calls @ [Call_get_coordinates station_id])
                  else (Inr stations, s', calls @ [Call_get_coordinates station_id]))))"

text \<open>The body of \<^verbatim>\<open>for waveform in waveform_metadata\<close>.\<close>

definition loop_body ::
  "(real \<Rightarrow> string) \<Rightarrow> (pyval, pydict) dict \<Rightarrow> (string, pydict) dict \<Rightarrow>
   (string \<Rightarrow> 's \<Rightarrow> (error + pydict) \<times> 's) \<Rightarrow>
   pydict \<Rightarrow> stations \<Rightarrow> 's \<Rightarrow> call list \<Rightarrow> 's outcome" where
  "loop_body float_str station_coordinates inventory_coordinates live waveform stations s calls =
     (case station_id_of float_str waveform of
        Inl e \<Rightarrow> (Inl e, s, calls)
      | Inr station_id \<Rightarrow>
          if contains stations station_id then (Inr stations, s, calls)
          else
            (case lookup_stat_coords station_coordinates waveform of
               None \<Rightarrow> (Inr stations, s, calls)
             | Some stat_coords \<Rightarrow>
                 (case getitem stat_coords ''latitude'' of
                    Inl e \<Rightarrow> (Inl e, s, calls)
                  | Inr lat \<Rightarrow>
                      if lat \<noteq> PyNone
                      then (Inr (setitem stations station_id stat_coords), s, calls)
                      else
                        (case getitem waveform ''latitude'' of
                           Inl e \<Rightarrow> (Inl e, s, calls)
                         | Inr wlat \<Rightarrow>
                             if wlat \<noteq> PyNone
                             then (Inr (setitem stations station_id waveform), s, calls)
                             else from_inventory inventory_coordinates live
                                    station_id stations s calls))))"

fun stations_loop ::
  "(real \<Rightarrow> string) \<Rightarrow> (pyval, pydict) dict \<Rightarrow> (string, pydict) dict \<Rightarrow>
   (string \<Rightarrow> 's \<Rightarrow> (error + pydict) \<times> 's) \<Rightarrow>
   pydict list \<Rightarrow> stations \<Rightarrow> 's \<Rightarrow> call list \<Rightarrow> 's outcome" where
  "stations_loop float_str station_coordinates inventory_coordinates live [] stations s calls =
     (Inr stations, s, calls)"
| "stations_loop float_str station_coordinates inventory_coordinates live
     (waveform # waveform_metadata) stations s calls =
     (case loop_body float_str station_coordinates inventory_coordinates live
             waveform stations s calls of
        (Inl e, s', calls') \<Rightarrow> (Inl e, s', calls')
      | (Inr stations', s', calls') \<Rightarrow>
          stations_loop float_str station_coordinates inventory_coordinates live
            waveform_metadata stations' s' calls')"

text \<open>
  A step that may raise while the information is collected: the exception leaves the
  function at once, with the calls made up to that point.
\<close>

definition or_raise ::
  "error + 'a \<Rightarrow> call list \<Rightarrow> ('a \<Rightarrow> (error + 'b) \<times> call list) \<Rightarrow> (error + 'b) \<times> call list" where
  "or_raise r calls k = (case r of Inl e \<Rightarrow> (Inl e, calls) | Inr x \<Rightarrow> k x)"

text \<open>
  The first part of \<^verbatim>\<open>get_all_stations_for_event\<close>, up to the comment
  \<^verbatim>\<open># Collect information from all the different places.\<close> and the three
  assignments after it: \<^verbatim>\<open>waveform_metadata\<close>, \<^verbatim>\<open>station_coordinates\<close>
  and \<^verbatim>\<open>inventory_coordinates\<close>, and with them the method
  \<^verbatim>\<open>self.comm.inventory_db.get_coordinates\<close> that the loop calls. \<open>comm\<close> is
  \<^verbatim>\<open>self.comm\<close> and \<open>s\<close> the state of the inventory database. In
  \<^verbatim>\<open>self.comm.stations.get_all_channels_at_time(event["origin_time"])\<close> Python
  evaluates the method before the argument. A call is recorded when it is made, also
  when it raises. The source looks \<^verbatim>\<open>self.comm.inventory_db.get_coordinates\<close> up
  at each query inside the loop; the communicator has no removal, and a component that
  has \<^verbatim>\<open>get_all_coordinates\<close> has \<^verbatim>\<open>get_coordinates\<close>, so the lookup
  gives the same method each time and is made once here.
\<close>

type_synonym 's information =
  "pydict list \<times> (pyval, pydict) dict \<times> (string, pydict) dict \<times>
   (string \<Rightarrow> 's \<Rightarrow> (error + pydict) \<times> 's)"

definition collect_information ::
  "'s communicator \<Rightarrow> string \<Rightarrow> 's \<Rightarrow> (error + 's information) \<times> call list" where
  "collect_information comm event_name s =
     or_raise (get comm ''events'') [] (\<lambda>c1.
     or_raise (events_get c1) [] (\<lambda>ev_get.
     let calls1 = [Call_events_get event_name] in
     or_raise (ev_get event_name) calls1 (\<lambda>event.
     or_raise (get comm ''waveforms'') calls1 (\<lambda>c2.
     or_raise (waveforms_get_metadata_raw c2) calls1 (\<lambda>wf_get.
     let calls2 = calls1 @ [Call_get_metadata_raw event_name] in
     or_raise (wf_get event_name) calls2 (\<lambda>waveform_metadata.
     or_raise (get comm ''stations'') calls2 (\<lambda>c3.
     or_raise (stations_get_all_channels_at_time c3) calls2 (\<lambda>st_get.
     or_raise (getitem event ''origin_time'') calls2 (\<lambda>origin_time.
     let calls3 = calls2 @ [Call_get_all_channels_at_time origin_time] in
     or_raise (st_get origin_time) calls3 (\<lambda>station_coordinates.
     or_raise (get comm ''inventory_db'') calls3 (\<lambda>c4.
     or_raise (inventory_get_all_coordinates c4) calls3 (\<lambda>inv_all.
     let calls4 = calls3 @ [Call_get_all_coordinates] in
     or_raise (inv_all s) calls4 (\<lambda>inventory_coordinates.
     or_raise (inventory_get_coordinates c4) calls4 (\<lambda>live.
     (Inr (waveform_metadata, station_coordinates, inventory_coordinates, live),
      calls4)))))))))))))))"

text \<open>
  \<^verbatim>\<open>get_all_stations_for_event(self, event_name)\<close>: the information is
  collected, then the loop runs from \<^verbatim>\<open>stations = {}\<close>. The result is the
  exception or the dictionary \<^verbatim>\<open>stations\<close>, with the state of the inventory
  database after the call and the calls made during it.
\<close>

definition get_all_stations_for_event ::
  "(real \<Rightarrow> string) \<Rightarrow> 's communicator \<Rightarrow> string \<Rightarrow> 's \<Rightarrow> 's outcome" where
  "get_all_stations_for_event float_str comm event_name s =
     (case collect_information comm event_name s of
        (Inl e, calls) \<Rightarrow> (Inl e, s, calls)
      | (Inr (waveform_metadata, station_coordinates, inventory_coordinates, live), calls) \<Rightarrow>
          stations_loop float_str station_coordinates inventory_coordinates live
            waveform_metadata [] s calls)"

section \<open>Setting up the components of a project\<close>

text \<open>
  Modelled from the spec: \<^verbatim>\<open>Component.__init__\<close> (lasif/components/component.py is
  not among the sources) registers the new component with the communicator under its
  \<^verbatim>\<open>component_name\<close>. \<open>construct_all\<close> runs the constructors of a list of
  components in order and stops at the first that raises.
\<close>

fun construct_all ::
  "(string \<times> 's component) list \<Rightarrow> 's communicator \<Rightarrow> error + 's communicator" where
  "construct_all [] comm = Inr comm"
| "construct_all ((component_name, c) # rest) comm =
     (case register component_name c comm of
        Inl e \<Rightarrow> Inl e
      | Inr comm' \<Rightarrow> construct_all rest comm')"

text \<open>
  \<^verbatim>\<open>Project.__setup_components\<close> (lasif/components/project.py), in the order of
  the source. \<open>ev_get\<close> and \<open>wf_get\<close> are the methods of the events and the waveforms
  component that it constructs; the other components have none of the methods that the
  query calls.
\<close>

definition setup_components ::
  "(string \<Rightarrow> error + pydict) \<Rightarrow> (string \<Rightarrow> error + pydict list) \<Rightarrow>
   's communicator \<Rightarrow> error + 's communicator" where
  "setup_components ev_get wf_get comm =
     construct_all
       [(''events'', Events_Component ev_get),
        (''waveforms'', Waveforms_Component wf_get),
        (''kernels'', Other_Component),
        (''iterations'', Other_Component),
        (''query'', Other_Component),
        (''visualizations'', Other_Component),
        (''actions'', Other_Component),
        (''validator'', Other_Component),
        (''wins_and_adj_sources'', Other_Component),
        (''downloads'', Other_Component)] comm"

text \<open>
  The part of \<^verbatim>\<open>Project.__init__\<close> that builds the communicator: a new
  communicator, the project registered as \<^verbatim>\<open>"project"\<close>, then
  \<^verbatim>\<open>__setup_components\<close>.
\<close>

definition project_communicator ::
  "(string \<Rightarrow> error + pydict) \<Rightarrow> (string \<Rightarrow> error + pydict list) \<Rightarrow>
   error + 's communicator" where
  "project_communicator ev_get wf_get =
     (case register ''project'' Other_Component [] of
        Inl e \<Rightarrow> Inl e
      | Inr comm \<Rightarrow> setup_components ev_get wf_get comm)"

section \<open>The tiers of the coordinate resolution\<close>

text \<open>
  A record is resolved when its latitude is present and not \<^verbatim>\<open>None\<close>
  (\<open>has_latitude\<close>). \<open>null_latitude\<close> is a record whose latitude is
  \<^verbatim>\<open>None\<close>, and \<open>true_latitude\<close> is the test \<^verbatim>\<open>if coords["latitude"]:\<close>
  that the code applies to a record of the inventory database.
\<close>

definition has_latitude :: "pydict \<Rightarrow> bool" where
  "has_latitude d = (case getitem d ''latitude'' of Inl e \<Rightarrow> False | Inr lat \<Rightarrow> lat \<noteq> PyNone)"

definition null_latitude :: "pydict \<Rightarrow> bool" where
  "null_latitude d = (getitem d ''latitude'' = Inr PyNone)"

definition true_latitude :: "pydict \<Rightarrow> bool" where
  "true_latitude d = (case getitem d ''latitude'' of Inl e \<Rightarrow> False | Inr lat \<Rightarrow> truthy lat)"

text \<open>
  The tiers in the words of the specification. Tier 1: the station file of the channel of
  the waveform entry \<open>w\<close> gives the record \<open>r\<close>, with a latitude. Tier 2: the
  waveform entry itself carries a latitude. Tier 3: the snapshot of the inventory
  database has the record \<open>r\<close> for the station, with a latitude.
\<close>

definition tier1 :: "(pyval, pydict) dict \<Rightarrow> pydict \<Rightarrow> pydict \<Rightarrow> bool" where
  "tier1 station_coordinates w r =
     (lookup_stat_coords station_coordinates w = Some r \<and> has_latitude r)"

definition tier2 :: "pydict \<Rightarrow> bool" where
  "tier2 w = has_latitude w"

definition tier3 :: "(string, pydict) dict \<Rightarrow> string \<Rightarrow> pydict \<Rightarrow> bool" where
  "tier3 inventory_coordinates station_id r =
     (map_of inventory_coordinates station_id = Some r \<and> has_latitude r)"

text \<open>
  A coordinate record in the sense of the specification: a dictionary with exactly the
  four fields latitude, longitude, elevation\_in\_m and local\_depth\_in\_m.
\<close>

definition coordinate_record :: "pydict \<Rightarrow> bool" where
  "coordinate_record d =
     (distinct (map fst d) \<and>
      set (map fst d) = {''latitude'', ''longitude'', ''elevation_in_m'', ''local_depth_in_m''})"

text \<open>
  The entries of the listing that belong to the station \<open>station_id\<close> and have a
  station file for their channel: the entries of the station that the loop does not skip
  as long as the station is not in the result.
\<close>

definition entries_with_station_file ::
  "(real \<Rightarrow> string) \<Rightarrow> (pyval, pydict) dict \<Rightarrow> string \<Rightarrow> pydict list \<Rightarrow> pydict list" where
  "entries_with_station_file float_str station_coordinates station_id waveform_metadata =
     filter (\<lambda>w. station_id_of float_str w = Inr station_id \<and>
                 lookup_stat_coords station_coordinates w \<noteq> None) waveform_metadata"

text \<open>A dictionary all of whose values are coordinate records.\<close>

definition coordinate_records :: "('k, pydict) dict \<Rightarrow> bool" where
  "coordinate_records d = list_all coordinate_record (map snd d)"

text \<open>
  The live queries among the calls of a query, in their order, and the state of the
  inventory database after a sequence of live queries made from the state \<open>s\<close>.
\<close>

fun live_queries :: "call list \<Rightarrow> string list" where
  "live_queries [] = []"
| "live_queries (Call_get_coordinates station_id # calls) = station_id # live_queries calls"
| "live_queries (c # calls) = live_queries calls"

fun after_queries :: "(string \<Rightarrow> 's \<Rightarrow> (error + pydict) \<times> 's) \<Rightarrow> string list \<Rightarrow> 's \<Rightarrow> 's" where
  "after_queries live [] s = s"
| "after_queries live (station_id # station_ids) s =
     after_queries live station_ids (snd (live station_id s))"

section \<open>Example components\<close>

text \<open>
  Concrete components on which the functions above are evaluated: an events component
  and a waveforms component that look the event up in a table and raise
  \<open>NotFoundError\<close> for an unknown event, a stations component with one table
  of channels for every time, and an inventory database whose state is its cache:
  \<open>cache_all\<close> returns the cache, and \<open>cache_live\<close> answers from the cache or
  else from the table \<open>remote\<close> (a record of \<^verbatim>\<open>None\<close> for a station that
  \<open>remote\<close> does not know) and stores the answer in the cache. The second inventory
  database keeps no cache: \<open>no_cache\<close> is its empty snapshot and \<open>remote_live\<close>
  answers every query from \<open>remote\<close>.
\<close>

definition example_float_str :: "real \<Rightarrow> string" where
  "example_float_str x = ''0.0''"

definition events_of :: "(string, pydict) dict \<Rightarrow> string \<Rightarrow> error + pydict" where
  "events_of table event_name =
     (case map_of table event_name of None \<Rightarrow> Inl NotFoundError | Some e \<Rightarrow> Inr e)"

definition waveforms_of :: "(string, pydict list) dict \<Rightarrow> string \<Rightarrow> error + pydict list" where
  "waveforms_of table event_name =
     (case map_of table event_name of None \<Rightarrow> Inl NotFoundError | Some l \<Rightarrow> Inr l)"

definition stations_of :: "(pyval, pydict) dict \<Rightarrow> pyval \<Rightarrow> error + (pyval, pydict) dict" where
  "stations_of table time = Inr table"

definition coordinates :: "pyval \<Rightarrow> pyval \<Rightarrow> pyval \<Rightarrow> pyval \<Rightarrow> pydict" where
  "coordinates lat lon elev depth =
     [(''latitude'', lat), (''longitude'', lon), (''elevation_in_m'', elev),
      (''local_depth_in_m'', depth)]"

definition cache_all :: "(string, pydict) dict \<Rightarrow> error + (string, pydict) dict" where
  "cache_all cache = Inr cache"

definition cache_live ::
  "(string, pydict) dict \<Rightarrow> string \<Rightarrow> (string, pydict) dict \<Rightarrow>
   (error + pydict) \<times> (string, pydict) dict" where
  "cache_live remote station_id cache =
     (case map_of cache station_id of
        Some c \<Rightarrow> (Inr c, cache)
      | None \<Rightarrow>
          (let c = (case map_of remote station_id of
                      None \<Rightarrow> coordinates PyNone PyNone PyNone PyNone
                    | Some c \<Rightarrow> c)
           in (Inr c, setitem cache station_id c)))"

definition remote_live ::
  "(string, pydict) dict \<Rightarrow> string \<Rightarrow> unit \<Rightarrow> (error + pydict) \<times> unit" where
  "remote_live remote station_id u =
     (Inr (case map_of remote station_id of
             None \<Rightarrow> coordinates PyNone PyNone PyNone PyNone
           | Some c \<Rightarrow> c), u)"

definition no_cache :: "unit \<Rightarrow> error + (string, pydict) dict" where
  "no_cache u = Inr []"

definition example_comm ::
  "(string, pydict) dict \<Rightarrow> (string, pydict list) dict \<Rightarrow> (pyval, pydict) dict \<Rightarrow>
   's component \<Rightarrow> 's communicator" where
  "example_comm events waveforms stations inventory =
     [(''events'', Events_Component (events_of events)),
      (''waveforms'', Waveforms_Component (waveforms_of waveforms)),
      (''stations'', Stations_Component (stations_of stations)),
      (''inventory_db'', inventory)]"

definition cached_inventory :: "(string, pydict) dict \<Rightarrow> (string, pydict) dict component" where
  "cached_inventory remote = Inventory_Component cache_all (cache_live remote)"

definition uncached_inventory :: "(string, pydict) dict \<Rightarrow> unit component" where
  "uncached_inventory remote = Inventory_Component no_cache (remote_live remote)"

text \<open>
  A waveform entry of network \<open>net\<close>, station \<open>sta\<close> and channel \<open>cha\<close>
  with the embedded latitude and longitude \<open>lat\<close> and \<open>lon\<close>, and an event
  with the origin time \<open>t\<close>.
\<close>

definition waveform_entry :: "string \<Rightarrow> string \<Rightarrow> string \<Rightarrow> pyval \<Rightarrow> pyval \<Rightarrow> pydict" where
  "waveform_entry net sta cha lat lon =
     [(''network'', PyStr net), (''station'', PyStr sta),
      (''channel_id'', PyStr (net @ ''.'' @ sta @ ''..'' @ cha)),
      (''latitude'', lat), (''longitude'', lon), (''elevation_in_m'', PyNone),
      (''local_depth_in_m'', PyNone)]"

definition event_at :: "real \<Rightarrow> pydict" where
  "event_at t = [(''origin_time'', PyFloat t)]"

text \<open>The calls that collecting the information makes when nothing raises.\<close>

definition collect_calls :: "string \<Rightarrow> pyval \<Rightarrow> call list" where
  "collect_calls event_name origin_time =
     [Call_events_get event_name, Call_get_metadata_raw event_name,
      Call_get_all_channels_at_time origin_time, Call_get_all_coordinates]"

text \<open>
  A cache in which the station \<open>station_id\<close> has no coordinates: the station is not
  in it, or its record there has a null latitude.
\<close>

definition unresolved_in_cache :: "string \<Rightarrow> (string, pydict) dict \<Rightarrow> bool" where
  "unresolved_in_cache station_id cache =
     (case map_of cache station_id of None \<Rightarrow> True | Some r \<Rightarrow> null_latitude r)"

section \<open>Evaluating the example components\<close>

lemmas eval_defs =
  loop_body_def from_inventory_def station_id_of_def lookup_stat_coords_def getitem_def
  contains_def setitem_def waveform_entry_def coordinates_def example_float_str_def
  event_at_def cache_live_def remote_live_def

lemma collect_information_example:
  "map_of events event_name = Some event \<Longrightarrow>
   map_of waveforms event_name = Some waveform_metadata \<Longrightarrow>
   map_of event ''origin_time'' = Some t \<Longrightarrow>
   inv_all s = Inr inventory_coordinates \<Longrightarrow>
   collect_information
     (example_comm events waveforms stations (Inventory_Component inv_all live)) event_name s =
     (Inr (waveform_metadata, stations, inventory_coordinates, live),
      collect_calls event_name t)"
  by (simp add: collect_information_def or_raise_def get_def getitem_def example_comm_def
      events_of_def waveforms_of_def stations_of_def collect_calls_def)

lemma collect_information_cached:
  "map_of events event_name = Some event \<Longrightarrow>
   map_of waveforms event_name = Some waveform_metadata \<Longrightarrow>
   map_of event ''origin_time'' = Some t \<Longrightarrow>
   collect_information
     (example_comm events waveforms stations (cached_inventory remote)) event_name cache =
     (Inr (waveform_metadata, stations, cache, cache_live remote), collect_calls event_name t)"
  by (simp add: collect_information_example cached_inventory_def cache_all_def)

lemma collect_information_uncached:
  "map_of events event_name = Some event \<Longrightarrow>
   map_of waveforms event_name = Some waveform_metadata \<Longrightarrow>
   map_of event ''origin_time'' = Some t \<Longrightarrow>
   collect_information
     (example_comm events waveforms stations (uncached_inventory remote)) event_name u =
     (Inr (waveform_metadata, stations, [], remote_live remote), collect_calls event_name t)"
  by (simp add: collect_information_example uncached_inventory_def no_cache_def)

section \<open>An event without waveforms\<close>

text \<open>
  C9. For every event whose waveform-metadata listing is empty,
  \<^verbatim>\<open>get_all_stations_for_event\<close> returns an empty mapping: when the information
  is collected without an exception and the listing is \<open>[]\<close>, the call returns the
  empty dictionary, leaves the inventory database as it was and makes no further call.
\<close>

theorem empty_listing_empty_mapping:
  "collect_information comm event_name s =
     (Inr ([], station_coordinates, inventory_coordinates, live), calls) \<Longrightarrow>
   get_all_stations_for_event float_str comm event_name s = (Inr [], s, calls)"
  by (simp add: get_all_stations_for_event_def)

theorem empty_listing_empty_mapping_witness:
  "collect_information (example_comm [(''E0'', event_at 0)] [(''E0'', [])] [] (cached_inventory [])) ''E0'' [] =
     (Inr ([], [], [], cache_live []), collect_calls ''E0'' (PyFloat 0)) \<and>
   get_all_stations_for_event example_float_str
     (example_comm [(''E0'', event_at 0)] [(''E0'', [])] [] (cached_inventory [])) ''E0'' [] =
     (Inr [], [], collect_calls ''E0'' (PyFloat 0))"
proof -
  have h: "collect_information (example_comm [(''E0'', event_at 0)] [(''E0'', [])] [] (cached_inventory []))
             ''E0'' [] = (Inr ([], [], [], cache_live []), collect_calls ''E0'' (PyFloat 0))"
    by (simp add: collect_information_cached event_at_def)
  from empty_listing_empty_mapping [OF h] h show ?thesis by simp
qed

section \<open>An unknown event\<close>

text \<open>
  C7. For every event name that does not name a previously ingested event,
  \<^verbatim>\<open>get_all_stations_for_event\<close> fails with \<open>NotFoundError\<close> and no call
  of a provider is made beyond the event lookup: when \<^verbatim>\<open>events.get\<close> raises
  \<open>NotFoundError\<close> for the name, the query raises it, the only call made is that
  one, and the inventory database is as before.
\<close>

theorem unknown_event_not_found:
  "get comm ''events'' = Inr c \<Longrightarrow> events_get c = Inr ev_get \<Longrightarrow>
   ev_get event_name = Inl NotFoundError \<Longrightarrow>
   get_all_stations_for_event float_str comm event_name s =
     (Inl NotFoundError, s, [Call_events_get event_name])"
  by (simp add: get_all_stations_for_event_def collect_information_def or_raise_def)

theorem unknown_event_not_found_witness:
  "get (example_comm [(''E0'', event_at 0)] [(''E0'', [])] [] (cached_inventory [])) ''events'' =
     Inr (Events_Component (events_of [(''E0'', event_at 0)])) \<and>
   events_get (Events_Component (events_of [(''E0'', event_at 0)]) :: (string, pydict) dict component) =
     Inr (events_of [(''E0'', event_at 0)]) \<and>
   events_of [(''E0'', event_at 0)] ''RandomEvent'' = Inl NotFoundError \<and>
   get_all_stations_for_event example_float_str
     (example_comm [(''E0'', event_at 0)] [(''E0'', [])] [] (cached_inventory [])) ''RandomEvent'' [] =
     (Inl NotFoundError, [], [Call_events_get ''RandomEvent''])"
proof -
  have h1: "get (example_comm [(''E0'', event_at 0)] [(''E0'', [])] [] (cached_inventory [])) ''events'' =
     Inr (Events_Component (events_of [(''E0'', event_at 0)]))"
    by (simp add: get_def example_comm_def)
  have h2: "events_get (Events_Component (events_of [(''E0'', event_at 0)]) :: (string, pydict) dict component) =
     Inr (events_of [(''E0'', event_at 0)])"
    by simp
  have h3: "events_of [(''E0'', event_at 0)] ''RandomEvent'' = Inl NotFoundError"
    by (simp add: events_of_def)
  from unknown_event_not_found [OF h1 h2 h3] h1 h2 h3 show ?thesis by simp
qed

section \<open>Invariants of the loop\<close>

lemma map_of_setitem: "map_of (setitem d k v) k' = (if k' = k then Some v else map_of d k')"
  by (simp add: setitem_def update_conv')

lemma distinct_setitem: "distinct (map fst d) \<Longrightarrow> distinct (map fst (setitem d k v))"
  by (simp add: setitem_def distinct_update)

text \<open>A record that is in the dictionary stays as it is.\<close>

lemma from_inventory_keeps:
  "from_inventory ic live k st s c = (Inr st', s', c') \<Longrightarrow> \<not> contains st k \<Longrightarrow>
   map_of st k' = Some r \<Longrightarrow> map_of st' k' = Some r"
  by (auto simp: from_inventory_def map_of_setitem contains_def
      split: sum.splits if_splits prod.splits)

lemma loop_body_keeps:
  "loop_body fs sc ic live w st s c = (Inr st', s', c') \<Longrightarrow>
   map_of st k = Some r \<Longrightarrow> map_of st' k = Some r"
  by (auto simp: loop_body_def map_of_setitem contains_def
      split: sum.splits option.splits if_splits dest: from_inventory_keeps [unfolded contains_def])

lemma stations_loop_keeps:
  "stations_loop fs sc ic live ws st s c = (Inr st', s', c') \<Longrightarrow>
   map_of st k = Some r \<Longrightarrow> map_of st' k = Some r"
proof (induction ws arbitrary: st s c)
  case Nil
  then show ?case by simp
next
  case (Cons w ws)
  then show ?case
    by (auto split: prod.splits sum.splits dest: loop_body_keeps)
qed

text \<open>No key occurs twice.\<close>

lemma from_inventory_distinct:
  "from_inventory ic live k st s c = (Inr st', s', c') \<Longrightarrow>
   distinct (map fst st) \<Longrightarrow> distinct (map fst st')"
  by (auto simp: from_inventory_def distinct_setitem
      split: sum.splits if_splits prod.splits)

lemma loop_body_distinct:
  "loop_body fs sc ic live w st s c = (Inr st', s', c') \<Longrightarrow>
   distinct (map fst st) \<Longrightarrow> distinct (map fst st')"
  by (auto simp: loop_body_def distinct_setitem
      split: sum.splits option.splits if_splits dest: from_inventory_distinct)

lemma stations_loop_distinct:
  "stations_loop fs sc ic live ws st s c = (Inr st', s', c') \<Longrightarrow>
   distinct (map fst st) \<Longrightarrow> distinct (map fst st')"
proof (induction ws arbitrary: st s c)
  case Nil
  then show ?case by simp
next
  case (Cons w ws)
  then show ?case
    by (auto split: prod.splits sum.splits dest: loop_body_distinct)
qed

text \<open>The loop over a listing in two parts.\<close>

lemma stations_loop_append:
  "stations_loop fs sc ic live (xs @ ys) st s c =
     (case stations_loop fs sc ic live xs st s c of
        (Inl e, s', c') \<Rightarrow> (Inl e, s', c')
      | (Inr st', s', c') \<Rightarrow> stations_loop fs sc ic live ys st' s' c')"
  by (induction xs arbitrary: st s c) (auto split: prod.splits sum.splits)

lemma stations_loop_append_Inr:
  "stations_loop fs sc ic live (xs @ ys) st s c = (Inr result, s', c') \<Longrightarrow>
   \<exists>mid s1 c1. stations_loop fs sc ic live xs st s c = (Inr mid, s1, c1) \<and>
     stations_loop fs sc ic live ys mid s1 c1 = (Inr result, s', c')"
  by (auto simp: stations_loop_append split: prod.splits sum.splits)

section \<open>One record for a station, and the first one\<close>

text \<open>
  C6. For every call of \<^verbatim>\<open>get_all_stations_for_event\<close> the returned mapping
  has at most one entry per station identity, and once a station has been added its
  record is never overwritten by a later waveform-metadata entry of the same station:
  for every split of the listing into \<open>xs\<close> and \<open>ys\<close>, the loop has built a
  dictionary \<open>mid\<close> after \<open>xs\<close>, the result is what the loop makes of
  \<open>mid\<close> over \<open>ys\<close>, and every record of \<open>mid\<close> is in the result unchanged.
\<close>

theorem one_entry_per_station_first_seen_wins:
  assumes "collect_information comm event_name s =
             (Inr (xs @ ys, station_coordinates, inventory_coordinates, live), calls)"
    and "get_all_stations_for_event float_str comm event_name s = (Inr result, s', calls')"
  shows "distinct (map fst result) \<and>
         (\<exists>mid s1 calls1.
            stations_loop float_str station_coordinates inventory_coordinates live
              xs [] s calls = (Inr mid, s1, calls1) \<and>
            stations_loop float_str station_coordinates inventory_coordinates live
              ys mid s1 calls1 = (Inr result, s', calls') \<and>
            (\<forall>station_id r. map_of mid station_id = Some r \<longrightarrow>
               map_of result station_id = Some r))"
proof -
  from assms have loop:
    "stations_loop float_str station_coordinates inventory_coordinates live
       (xs @ ys) [] s calls = (Inr result, s', calls')"
    by (simp add: get_all_stations_for_event_def)
  then have "distinct (map fst result)"
    by (rule stations_loop_distinct) simp
  moreover from stations_loop_append_Inr [OF loop] obtain mid s1 calls1 where
    mid: "stations_loop float_str station_coordinates inventory_coordinates live
            xs [] s calls = (Inr mid, s1, calls1)"
    and rest: "stations_loop float_str station_coordinates inventory_coordinates live
            ys mid s1 calls1 = (Inr result, s', calls')"
    by blast
  moreover have "\<forall>station_id r. map_of mid station_id = Some r \<longrightarrow>
      map_of result station_id = Some r"
    using stations_loop_keeps [OF rest] by blast
  ultimately show ?thesis by blast
qed

theorem one_entry_per_station_first_seen_wins_witness:
  "collect_information
     (example_comm [(''E1'', event_at 0)]
        [(''E1'', [waveform_entry ''NET'' ''STA'' ''BHZ'' (PyFloat 5) (PyFloat 6)] @
                  [waveform_entry ''NET'' ''STA'' ''BHN'' PyNone PyNone])]
        [(PyStr ''NET.STA..BHZ'', coordinates PyNone PyNone PyNone PyNone),
         (PyStr ''NET.STA..BHN'', coordinates (PyFloat 10) (PyFloat 20) (PyFloat 0) (PyFloat 0))]
        (cached_inventory [])) ''E1'' [] =
     (Inr ([waveform_entry ''NET'' ''STA'' ''BHZ'' (PyFloat 5) (PyFloat 6)] @
           [waveform_entry ''NET'' ''STA'' ''BHN'' PyNone PyNone],
           [(PyStr ''NET.STA..BHZ'', coordinates PyNone PyNone PyNone PyNone),
            (PyStr ''NET.STA..BHN'',
             coordinates (PyFloat 10) (PyFloat 20) (PyFloat 0) (PyFloat 0))],
           [], cache_live []),
      collect_calls ''E1'' (PyFloat 0)) \<and>
   get_all_stations_for_event example_float_str
     (example_comm [(''E1'', event_at 0)]
        [(''E1'', [waveform_entry ''NET'' ''STA'' ''BHZ'' (PyFloat 5) (PyFloat 6)] @
                  [waveform_entry ''NET'' ''STA'' ''BHN'' PyNone PyNone])]
        [(PyStr ''NET.STA..BHZ'', coordinates PyNone PyNone PyNone PyNone),
         (PyStr ''NET.STA..BHN'', coordinates (PyFloat 10) (PyFloat 20) (PyFloat 0) (PyFloat 0))]
        (cached_inventory [])) ''E1'' [] =
     (Inr [(''NET.STA'', waveform_entry ''NET'' ''STA'' ''BHZ'' (PyFloat 5) (PyFloat 6))], [],
      collect_calls ''E1'' (PyFloat 0)) \<and>
   distinct (map fst [(''NET.STA'', waveform_entry ''NET'' ''STA'' ''BHZ'' (PyFloat 5) (PyFloat 6))]) \<and>
   stations_loop example_float_str
     [(PyStr ''NET.STA..BHZ'', coordinates PyNone PyNone PyNone PyNone),
      (PyStr ''NET.STA..BHN'', coordinates (PyFloat 10) (PyFloat 20) (PyFloat 0) (PyFloat 0))]
     [] (cache_live []) [waveform_entry ''NET'' ''STA'' ''BHZ'' (PyFloat 5) (PyFloat 6)] [] []
     (collect_calls ''E1'' (PyFloat 0)) =
     (Inr [(''NET.STA'', waveform_entry ''NET'' ''STA'' ''BHZ'' (PyFloat 5) (PyFloat 6))], [],
      collect_calls ''E1'' (PyFloat 0))"
  (is "?h1 \<and> ?h2 \<and> ?c1 \<and> ?c2")
proof -
  have h1: ?h1
    by (simp add: collect_information_cached event_at_def)
  have h2: ?h2
    unfolding get_all_stations_for_event_def h1 by (simp add: eval_defs)
  have c1: ?c1
    using one_entry_per_station_first_seen_wins [OF h1 h2] by blast
  have c2: ?c2
    by (simp add: eval_defs)
  from h1 h2 c1 c2 show ?thesis by blast
qed

text \<open>Where a record of the dictionary comes from.\<close>

lemma from_inventory_origin:
  "from_inventory ic live k st s c = (Inr st', s', c') \<Longrightarrow> map_of st' k' = Some r \<Longrightarrow>
   map_of st k' = Some r \<or>
   (k' = k \<and> true_latitude r \<and>
    (map_of ic k = Some r \<or> (\<not> contains ic k \<and> (\<exists>s1 s2. live k s1 = (Inr r, s2)))))"
  by (fastforce simp: from_inventory_def map_of_setitem contains_def true_latitude_def
      getitem_def split: sum.splits if_splits prod.splits option.splits)

lemma loop_body_origin:
  "loop_body fs sc ic live w st s c = (Inr st', s', c') \<Longrightarrow> map_of st' k = Some r \<Longrightarrow>
   map_of st k = Some r \<or>
   (station_id_of fs w = Inr k \<and>
    (tier1 sc w r \<or>
     (r = w \<and> tier2 w \<and> (\<exists>x. lookup_stat_coords sc w = Some x \<and> null_latitude x)) \<or>
     (true_latitude r \<and>
      (map_of ic k = Some r \<or> (\<not> contains ic k \<and> (\<exists>s1 s2. live k s1 = (Inr r, s2)))))))"
  apply (simp add: loop_body_def split: sum.splits if_splits option.splits)
     apply (auto simp: map_of_setitem tier1_def tier2_def has_latitude_def null_latitude_def
      split: if_splits dest!: from_inventory_origin)
  done

lemma stations_loop_origin:
  "stations_loop fs sc ic live ws st s c = (Inr st', s', c') \<Longrightarrow> map_of st' k = Some r \<Longrightarrow>
   map_of st k = Some r \<or>
   (\<exists>w\<in>set ws. station_id_of fs w = Inr k \<and>
    (tier1 sc w r \<or>
     (r = w \<and> tier2 w \<and> (\<exists>x. lookup_stat_coords sc w = Some x \<and> null_latitude x)) \<or>
     (true_latitude r \<and>
      (map_of ic k = Some r \<or> (\<not> contains ic k \<and> (\<exists>s1 s2. live k s1 = (Inr r, s2)))))))"
proof (induction ws arbitrary: st s c)
  case Nil
  then show ?case by simp
next
  case (Cons w ws)
  from Cons.prems(1) obtain st1 s1 c1 where
    body: "loop_body fs sc ic live w st s c = (Inr st1, s1, c1)"
    and rest: "stations_loop fs sc ic live ws st1 s1 c1 = (Inr st', s', c')"
    by (auto split: prod.splits sum.splits)
  from Cons.IH [OF rest Cons.prems(2)] loop_body_origin [OF body, of k r]
  show ?case by auto
qed

text \<open>The calls that the loop makes.\<close>

lemma from_inventory_calls:
  "from_inventory ic live k st s c = (out, s', c') \<Longrightarrow>
   c' = c \<or> (c' = c @ [Call_get_coordinates k] \<and> \<not> contains ic k)"
  by (auto simp: from_inventory_def split: sum.splits if_splits prod.splits)

lemma loop_body_calls:
  "loop_body fs sc ic live w st s c = (out, s', c') \<Longrightarrow>
   c' = c \<or> (\<exists>k. c' = c @ [Call_get_coordinates k] \<and> \<not> contains ic k)"
  by (auto simp: loop_body_def split: sum.splits if_splits option.splits
      dest: from_inventory_calls)

lemma stations_loop_calls:
  "stations_loop fs sc ic live ws st s c = (out, s', c') \<Longrightarrow>
   \<exists>extra. c' = c @ extra \<and> (\<forall>x\<in>set extra. \<exists>k. x = Call_get_coordinates k \<and> \<not> contains ic k)"
proof (induction ws arbitrary: st s c)
  case Nil
  then show ?case by simp
next
  case (Cons w ws)
  obtain out1 s1 c1 where body: "loop_body fs sc ic live w st s c = (out1, s1, c1)"
    by (cases "loop_body fs sc ic live w st s c") auto
  from loop_body_calls [OF body] obtain e1 where
    e1: "c1 = c @ e1" "\<forall>x\<in>set e1. \<exists>k. x = Call_get_coordinates k \<and> \<not> contains ic k"
    by fastforce
  show ?case
  proof (cases out1)
    case (Inl e)
    with body Cons.prems e1 show ?thesis by auto
  next
    case (Inr st1)
    with body Cons.prems have "stations_loop fs sc ic live ws st1 s1 c1 = (out, s', c')"
      by simp
    from Cons.IH [OF this] e1 show ?thesis by auto
  qed
qed

text \<open>The calls made while the information is collected.\<close>

lemma collect_information_calls:
  "collect_information comm event_name s = (x, calls) \<Longrightarrow>
   Call_get_coordinates k \<notin> set calls"
  by (auto simp: collect_information_def or_raise_def Let_def split: sum.splits)

lemma collect_information_Inr_calls:
  "collect_information comm event_name s = (Inr info, calls) \<Longrightarrow>
   \<exists>t. calls = collect_calls event_name t"
  by (auto simp: collect_information_def or_raise_def Let_def collect_calls_def split: sum.splits)

section \<open>A station that the inventory database knows without coordinates\<close>

text \<open>
  C5. For every station that is present in the inventory snapshot with a null latitude,
  \<^verbatim>\<open>get_all_stations_for_event\<close> never issues a live inventory query
  (\<^verbatim>\<open>inventory_db.get_coordinates\<close>) for that station during the call, and
  the station is absent from the result unless a higher tier resolved it: whatever the
  outcome of the call, no call of \<^verbatim>\<open>get_coordinates\<close> for the station is among
  the calls made, and a record of the station in the result is the station-file record
  (tier 1) or the waveform entry (tier 2) of one of its entries in the listing.
\<close>

theorem null_snapshot_entry_not_queried:
  assumes "collect_information comm event_name s =
             (Inr (waveform_metadata, station_coordinates, inventory_coordinates, live), calls)"
    and "map_of inventory_coordinates station_id = Some coords"
    and "null_latitude coords"
    and "get_all_stations_for_event float_str comm event_name s = (out, s', calls')"
  shows "Call_get_coordinates station_id \<notin> set calls' \<and>
         (\<forall>result r. out = Inr result \<and> map_of result station_id = Some r \<longrightarrow>
            (\<exists>w\<in>set waveform_metadata. station_id_of float_str w = Inr station_id \<and>
               (tier1 station_coordinates w r \<or> (r = w \<and> tier2 w))))"
proof -
  from assms(1,4) have loop:
    "stations_loop float_str station_coordinates inventory_coordinates live
       waveform_metadata [] s calls = (out, s', calls')"
    by (simp add: get_all_stations_for_event_def)
  from assms(2) have known: "contains inventory_coordinates station_id"
    by (simp add: contains_def)
  from stations_loop_calls [OF loop] obtain extra where
    extra: "calls' = calls @ extra"
      "\<forall>x\<in>set extra. \<exists>k. x = Call_get_coordinates k \<and> \<not> contains inventory_coordinates k"
    by blast
  from extra(2) known have "Call_get_coordinates station_id \<notin> set extra"
    by auto
  with extra(1) collect_information_calls [OF assms(1)]
  have no_query: "Call_get_coordinates station_id \<notin> set calls'"
    by simp
  have untrue: "\<not> true_latitude coords"
    using assms(3) by (simp add: null_latitude_def true_latitude_def)
  have "\<exists>w\<in>set waveform_metadata. station_id_of float_str w = Inr station_id \<and>
               (tier1 station_coordinates w r \<or> (r = w \<and> tier2 w))"
    if "out = Inr result" and "map_of result station_id = Some r" for result r
  proof -
    from loop that(1) have "stations_loop float_str station_coordinates inventory_coordinates
        live waveform_metadata [] s calls = (Inr result, s', calls')"
      by simp
    from stations_loop_origin [OF this that(2)] known untrue assms(2)
    show ?thesis by auto
  qed
  with no_query show ?thesis by blast
qed

theorem null_snapshot_entry_not_queried_witness:
  "collect_information
     (example_comm [(''E5'', event_at 0)]
        [(''E5'', [waveform_entry ''NET'' ''STD'' ''BHZ'' PyNone PyNone])]
        [(PyStr ''NET.STD..BHZ'', coordinates PyNone PyNone PyNone PyNone)]
        (cached_inventory
           [(''NET.STD'', coordinates (PyFloat 1) (PyFloat 2) (PyFloat 0) (PyFloat 0))]))
     ''E5'' [(''NET.STD'', coordinates PyNone PyNone PyNone PyNone)] =
     (Inr ([waveform_entry ''NET'' ''STD'' ''BHZ'' PyNone PyNone],
           [(PyStr ''NET.STD..BHZ'', coordinates PyNone PyNone PyNone PyNone)],
           [(''NET.STD'', coordinates PyNone PyNone PyNone PyNone)],
           cache_live
             [(''NET.STD'', coordinates (PyFloat 1) (PyFloat 2) (PyFloat 0) (PyFloat 0))]),
      collect_calls ''E5'' (PyFloat 0)) \<and>
   map_of [(''NET.STD'', coordinates PyNone PyNone PyNone PyNone)] ''NET.STD'' =
     Some (coordinates PyNone PyNone PyNone PyNone) \<and>
   null_latitude (coordinates PyNone PyNone PyNone PyNone) \<and>
   get_all_stations_for_event example_float_str
     (example_comm [(''E5'', event_at 0)]
        [(''E5'', [waveform_entry ''NET'' ''STD'' ''BHZ'' PyNone PyNone])]
        [(PyStr ''NET.STD..BHZ'', coordinates PyNone PyNone PyNone PyNone)]
        (cached_inventory
           [(''NET.STD'', coordinates (PyFloat 1) (PyFloat 2) (PyFloat 0) (PyFloat 0))]))
     ''E5'' [(''NET.STD'', coordinates PyNone PyNone PyNone PyNone)] =
     (Inr [], [(''NET.STD'', coordinates PyNone PyNone PyNone PyNone)],
      collect_calls ''E5'' (PyFloat 0)) \<and>
   Call_get_coordinates ''NET.STD'' \<notin> set (collect_calls ''E5'' (PyFloat 0))"
  (is "?h1 \<and> ?h2 \<and> ?h3 \<and> ?h4 \<and> ?c")
proof -
  have h1: ?h1
    by (simp add: collect_information_cached event_at_def)
  have h2: ?h2
    by simp
  have h3: ?h3
    by (simp add: null_latitude_def getitem_def coordinates_def)
  have h4: ?h4
    unfolding get_all_stations_for_event_def h1 by (simp add: eval_defs)
  have c: ?c
    using null_snapshot_entry_not_queried [OF h1 h2 h3 h4] by blast
  from h1 h2 h3 h4 c show ?thesis by blast
qed

section \<open>The records of the result\<close>

text \<open>
  Where a record of the dictionary comes from, with the state of the inventory database
  in which a live query gave it.
\<close>

lemma from_inventory_origin_state:
  "from_inventory ic live k st s c = (Inr st', s', c') \<Longrightarrow> map_of st' k' = Some r \<Longrightarrow>
   map_of st k' = Some r \<or>
   (k' = k \<and> true_latitude r \<and>
    (map_of ic k = Some r \<or> (\<not> contains ic k \<and> live k s = (Inr r, s'))))"
  by (auto simp: from_inventory_def map_of_setitem contains_def true_latitude_def
      getitem_def split: sum.splits if_splits prod.splits option.splits)

lemma loop_body_origin_state:
  "loop_body fs sc ic live w st s c = (Inr st', s', c') \<Longrightarrow> map_of st' k = Some r \<Longrightarrow>
   map_of st k = Some r \<or>
   (station_id_of fs w = Inr k \<and> \<not> contains st k \<and>
    (tier1 sc w r \<or> (r = w \<and> tier2 w) \<or>
     (true_latitude r \<and>
      (map_of ic k = Some r \<or> (\<not> contains ic k \<and> live k s = (Inr r, s'))))))"
  apply (simp add: loop_body_def split: sum.splits if_splits option.splits)
     apply (auto simp: map_of_setitem tier1_def tier2_def has_latitude_def contains_def
      split: if_splits dest!: from_inventory_origin_state)
  done

lemma stations_loop_origin_at:
  "stations_loop fs sc ic live ws st s c = (Inr st', s', c') \<Longrightarrow> map_of st' k = Some r \<Longrightarrow>
   map_of st k = Some r \<or>
   (\<exists>pre w post mid s1 c1.
      ws = pre @ w # post \<and>
      stations_loop fs sc ic live pre st s c = (Inr mid, s1, c1) \<and>
      \<not> contains mid k \<and> station_id_of fs w = Inr k \<and>
      (tier1 sc w r \<or> (r = w \<and> tier2 w) \<or>
       (map_of ic k = Some r \<and> true_latitude r) \<or>
       (\<not> contains ic k \<and> true_latitude r \<and> (\<exists>s2. live k s1 = (Inr r, s2)))))"
proof (induction ws arbitrary: st' s' c' rule: rev_induct)
  case Nil
  then show ?case by simp
next
  case (snoc w ws)
  from stations_loop_append_Inr [OF snoc.prems(1)] obtain mid s1 c1 where
    mid: "stations_loop fs sc ic live ws st s c = (Inr mid, s1, c1)"
    and last: "stations_loop fs sc ic live [w] mid s1 c1 = (Inr st', s', c')"
    by blast
  from last have body: "loop_body fs sc ic live w mid s1 c1 = (Inr st', s', c')"
    by (auto split: prod.splits sum.splits)
  from loop_body_origin_state [OF body snoc.prems(2)]
  consider (before) "map_of mid k = Some r"
    | (here) "station_id_of fs w = Inr k" "\<not> contains mid k"
        "tier1 sc w r \<or> (r = w \<and> tier2 w) \<or>
         (map_of ic k = Some r \<and> true_latitude r) \<or>
         (\<not> contains ic k \<and> true_latitude r \<and> (\<exists>s2. live k s1 = (Inr r, s2)))"
    by auto
  then show ?case
  proof cases
    case before
    from snoc.IH [OF mid this]
    consider (start) "map_of st k = Some r"
      | (earlier) pre w0 post mid0 s0 c0 where
          "ws = pre @ w0 # post"
          "stations_loop fs sc ic live pre st s c = (Inr mid0, s0, c0)"
          "\<not> contains mid0 k" "station_id_of fs w0 = Inr k"
          "tier1 sc w0 r \<or> (r = w0 \<and> tier2 w0) \<or>
           (map_of ic k = Some r \<and> true_latitude r) \<or>
           (\<not> contains ic k \<and> true_latitude r \<and> (\<exists>s2. live k s0 = (Inr r, s2)))"
      by blast
    then show ?thesis
    proof cases
      case start
      then show ?thesis by simp
    next
      case earlier
      from earlier(1) have "ws @ [w] = pre @ w0 # (post @ [w])"
        by simp
      with earlier(2-5) show ?thesis by blast
    qed
  next
    case here
    have "ws @ [w] = ws @ w # []"
      by simp
    with here mid show ?thesis by blast
  qed
qed

text \<open>
  C8, as the code has it. Every value of the mapping returned by
  \<^verbatim>\<open>get_all_stations_for_event\<close> is a record of one of the sources, unchanged:
  it was accepted at an entry \<open>w\<close> of its station in the listing, before which the
  station was not in the dictionary (\<open>mid\<close>, after the entries \<open>pre\<close>), and it is
  \<^item> the record that the station files hold for the channel of \<open>w\<close> (tier 1), or
  \<^item> the waveform entry \<open>w\<close> itself, whole, which carries a latitude (tier 2), or
  \<^item> the record that the inventory snapshot holds for the station (tier 3), or
  \<^item> the answer of the live query for the station in the state \<open>s1\<close> that the
    inventory database had when the loop reached \<open>w\<close> (tier 4).
  When the station files and the snapshot hold coordinate records of exactly the four
  fields latitude, longitude, elevation\_in\_m and local\_depth\_in\_m, the value is such
  a record at tiers 1 and 3.
\<close>

theorem values_are_source_records:
  assumes "collect_information comm event_name s =
             (Inr (waveform_metadata, station_coordinates, inventory_coordinates, live), calls)"
    and "get_all_stations_for_event float_str comm event_name s = (Inr result, s', calls')"
    and "coordinate_records station_coordinates"
    and "coordinate_records inventory_coordinates"
    and "(station_id, r) \<in> set result"
  shows "\<exists>pre w post mid s1 calls1.
           waveform_metadata = pre @ w # post \<and>
           stations_loop float_str station_coordinates inventory_coordinates live
             pre [] s calls = (Inr mid, s1, calls1) \<and>
           \<not> contains mid station_id \<and> station_id_of float_str w = Inr station_id \<and>
           ((tier1 station_coordinates w r \<and> coordinate_record r) \<or>
            (r = w \<and> tier2 w) \<or>
            (map_of inventory_coordinates station_id = Some r \<and> true_latitude r \<and>
             coordinate_record r) \<or>
            (\<not> contains inventory_coordinates station_id \<and> true_latitude r \<and>
             (\<exists>s2. live station_id s1 = (Inr r, s2))))"
proof -
  from assms(1,2) have loop:
    "stations_loop float_str station_coordinates inventory_coordinates live
       waveform_metadata [] s calls = (Inr result, s', calls')"
    by (simp add: get_all_stations_for_event_def)
  then have "distinct (map fst result)"
    by (rule stations_loop_distinct) simp
  with assms(5) have "map_of result station_id = Some r"
    by simp
  from stations_loop_origin_at [OF loop this] obtain pre w post mid s1 calls1 where
    split: "waveform_metadata = pre @ w # post"
      "stations_loop float_str station_coordinates inventory_coordinates live
         pre [] s calls = (Inr mid, s1, calls1)"
      "\<not> contains mid station_id" "station_id_of float_str w = Inr station_id"
    and cases: "tier1 station_coordinates w r \<or> (r = w \<and> tier2 w) \<or>
      (map_of inventory_coordinates station_id = Some r \<and> true_latitude r) \<or>
      (\<not> contains inventory_coordinates station_id \<and> true_latitude r \<and>
       (\<exists>s2. live station_id s1 = (Inr r, s2)))"
    by auto
  have t1: "coordinate_record r" if "tier1 station_coordinates w r"
  proof -
    from that obtain channel_id where "(channel_id, r) \<in> set station_coordinates"
      by (auto simp: tier1_def lookup_stat_coords_def getitem_def
          split: sum.splits option.splits dest: map_of_SomeD)
    with assms(3) show ?thesis
      by (auto simp: coordinate_records_def list_all_iff)
  qed
  have t3: "coordinate_record r" if "map_of inventory_coordinates station_id = Some r"
  proof -
    from that have "(station_id, r) \<in> set inventory_coordinates"
      by (rule map_of_SomeD)
    with assms(4) show ?thesis
      by (auto simp: coordinate_records_def list_all_iff)
  qed
  from cases t1 t3 have
    "(tier1 station_coordinates w r \<and> coordinate_record r) \<or>
     (r = w \<and> tier2 w) \<or>
     (map_of inventory_coordinates station_id = Some r \<and> true_latitude r \<and>
      coordinate_record r) \<or>
     (\<not> contains inventory_coordinates station_id \<and> true_latitude r \<and>
      (\<exists>s2. live station_id s1 = (Inr r, s2)))"
    by blast
  with split show ?thesis by blast
qed

lemma coordinate_record_no_network: "coordinate_record d \<Longrightarrow> map_of d ''network'' = None"
proof -
  assume "coordinate_record d"
  then have "set (map fst d) =
      {''latitude'', ''longitude'', ''elevation_in_m'', ''local_depth_in_m''}"
    by (simp add: coordinate_record_def)
  moreover have "''network'' \<notin>
      {''latitude'', ''longitude'', ''elevation_in_m'', ''local_depth_in_m''}"
    by simp
  ultimately have "''network'' \<notin> fst ` set d" by simp
  then show ?thesis by (simp add: map_of_eq_None_iff)
qed

theorem values_are_source_records_witness:
  "collect_information
     (example_comm [(''E2'', event_at 0)]
        [(''E2'', [waveform_entry ''NET'' ''STB'' ''BHZ'' (PyFloat 5) (PyFloat 6)])]
        [(PyStr ''NET.STB..BHZ'', coordinates PyNone PyNone PyNone PyNone)]
        (cached_inventory [])) ''E2'' [] =
     (Inr ([waveform_entry ''NET'' ''STB'' ''BHZ'' (PyFloat 5) (PyFloat 6)],
           [(PyStr ''NET.STB..BHZ'', coordinates PyNone PyNone PyNone PyNone)],
           [], cache_live []),
      collect_calls ''E2'' (PyFloat 0)) \<and>
   get_all_stations_for_event example_float_str
     (example_comm [(''E2'', event_at 0)]
        [(''E2'', [waveform_entry ''NET'' ''STB'' ''BHZ'' (PyFloat 5) (PyFloat 6)])]
        [(PyStr ''NET.STB..BHZ'', coordinates PyNone PyNone PyNone PyNone)]
        (cached_inventory [])) ''E2'' [] =
     (Inr [(''NET.STB'', waveform_entry ''NET'' ''STB'' ''BHZ'' (PyFloat 5) (PyFloat 6))], [],
      collect_calls ''E2'' (PyFloat 0)) \<and>
   coordinate_records [(PyStr ''NET.STB..BHZ'', coordinates PyNone PyNone PyNone PyNone)] \<and>
   coordinate_records ([] :: (string, pydict) dict) \<and>
   (''NET.STB'', waveform_entry ''NET'' ''STB'' ''BHZ'' (PyFloat 5) (PyFloat 6)) \<in>
     set [(''NET.STB'', waveform_entry ''NET'' ''STB'' ''BHZ'' (PyFloat 5) (PyFloat 6))] \<and>
   (\<exists>pre w post mid s1 calls1.
      [waveform_entry ''NET'' ''STB'' ''BHZ'' (PyFloat 5) (PyFloat 6)] = pre @ w # post \<and>
      stations_loop example_float_str
        [(PyStr ''NET.STB..BHZ'', coordinates PyNone PyNone PyNone PyNone)] []
        (cache_live []) pre [] [] (collect_calls ''E2'' (PyFloat 0)) = (Inr mid, s1, calls1) \<and>
      \<not> contains mid ''NET.STB'' \<and> station_id_of example_float_str w = Inr ''NET.STB'' \<and>
      ((tier1 [(PyStr ''NET.STB..BHZ'', coordinates PyNone PyNone PyNone PyNone)] w
          (waveform_entry ''NET'' ''STB'' ''BHZ'' (PyFloat 5) (PyFloat 6)) \<and>
        coordinate_record (waveform_entry ''NET'' ''STB'' ''BHZ'' (PyFloat 5) (PyFloat 6))) \<or>
       (waveform_entry ''NET'' ''STB'' ''BHZ'' (PyFloat 5) (PyFloat 6) = w \<and> tier2 w) \<or>
       (map_of [] ''NET.STB'' =
          Some (waveform_entry ''NET'' ''STB'' ''BHZ'' (PyFloat 5) (PyFloat 6)) \<and>
        true_latitude (waveform_entry ''NET'' ''STB'' ''BHZ'' (PyFloat 5) (PyFloat 6)) \<and>
        coordinate_record (waveform_entry ''NET'' ''STB'' ''BHZ'' (PyFloat 5) (PyFloat 6))) \<or>
       (\<not> contains ([] :: (string, pydict) dict) ''NET.STB'' \<and>
        true_latitude (waveform_entry ''NET'' ''STB'' ''BHZ'' (PyFloat 5) (PyFloat 6)) \<and>
        (\<exists>s2. cache_live [] ''NET.STB'' s1 =
           (Inr (waveform_entry ''NET'' ''STB'' ''BHZ'' (PyFloat 5) (PyFloat 6)), s2)))))"
  (is "?h1 \<and> ?h2 \<and> ?h3 \<and> ?h4 \<and> ?h5 \<and> ?c")
proof -
  have h1: ?h1
    by (simp add: collect_information_cached event_at_def)
  have h2: ?h2
    unfolding get_all_stations_for_event_def h1 by (simp add: eval_defs)
  have h3: ?h3
    by (simp add: coordinate_records_def coordinate_record_def coordinates_def)
  have h4: ?h4
    by (simp add: coordinate_records_def)
  have h5: ?h5
    by simp
  have c: ?c
    by (rule values_are_source_records [OF h1 h2 h3 h4 h5])
  show ?thesis
    by (rule conjI [OF h1 conjI [OF h2 conjI [OF h3 conjI [OF h4 conjI [OF h5 c]]]]])
qed

text \<open>
  C8 as it is stated fails for a station resolved from the waveform metadata: the value
  stored is the waveform entry, with the fields network, station and channel\_id besides
  the four of a coordinate record.
\<close>

theorem tier2_value_is_not_a_coordinate_record:
  "get_all_stations_for_event example_float_str
     (example_comm [(''E2'', event_at 0)]
        [(''E2'', [waveform_entry ''NET'' ''STB'' ''BHZ'' (PyFloat 5) (PyFloat 6)])]
        [(PyStr ''NET.STB..BHZ'', coordinates PyNone PyNone PyNone PyNone)]
        (cached_inventory [])) ''E2'' [] =
     (Inr [(''NET.STB'',
            [(''network'', PyStr ''NET''), (''station'', PyStr ''STB''),
             (''channel_id'', PyStr ''NET.STB..BHZ''), (''latitude'', PyFloat 5),
             (''longitude'', PyFloat 6), (''elevation_in_m'', PyNone),
             (''local_depth_in_m'', PyNone)])], [],
      collect_calls ''E2'' (PyFloat 0)) \<and>
   \<not> coordinate_record
     [(''network'', PyStr ''NET''), (''station'', PyStr ''STB''),
      (''channel_id'', PyStr ''NET.STB..BHZ''), (''latitude'', PyFloat 5),
      (''longitude'', PyFloat 6), (''elevation_in_m'', PyNone),
      (''local_depth_in_m'', PyNone)]"
proof -
  have "collect_information
     (example_comm [(''E2'', event_at 0)]
        [(''E2'', [waveform_entry ''NET'' ''STB'' ''BHZ'' (PyFloat 5) (PyFloat 6)])]
        [(PyStr ''NET.STB..BHZ'', coordinates PyNone PyNone PyNone PyNone)]
        (cached_inventory [])) ''E2'' [] =
     (Inr ([waveform_entry ''NET'' ''STB'' ''BHZ'' (PyFloat 5) (PyFloat 6)],
           [(PyStr ''NET.STB..BHZ'', coordinates PyNone PyNone PyNone PyNone)],
           [], cache_live []),
      collect_calls ''E2'' (PyFloat 0))"
    by (simp add: collect_information_cached event_at_def)
  then have "get_all_stations_for_event example_float_str
     (example_comm [(''E2'', event_at 0)]
        [(''E2'', [waveform_entry ''NET'' ''STB'' ''BHZ'' (PyFloat 5) (PyFloat 6)])]
        [(PyStr ''NET.STB..BHZ'', coordinates PyNone PyNone PyNone PyNone)]
        (cached_inventory [])) ''E2'' [] =
     (Inr [(''NET.STB'',
            [(''network'', PyStr ''NET''), (''station'', PyStr ''STB''),
             (''channel_id'', PyStr ''NET.STB..BHZ''), (''latitude'', PyFloat 5),
             (''longitude'', PyFloat 6), (''elevation_in_m'', PyNone),
             (''local_depth_in_m'', PyNone)])], [],
      collect_calls ''E2'' (PyFloat 0))"
    unfolding get_all_stations_for_event_def by (simp add: eval_defs)
  moreover have "\<not> coordinate_record
     [(''network'', PyStr ''NET''), (''station'', PyStr ''STB''),
      (''channel_id'', PyStr ''NET.STB..BHZ''), (''latitude'', PyFloat 5),
      (''longitude'', PyFloat 6), (''elevation_in_m'', PyNone),
      (''local_depth_in_m'', PyNone)]"
    using coordinate_record_no_network by fastforce
  ultimately show ?thesis by (rule conjI)
qed

section \<open>The order of the tiers\<close>

lemma loop_body_tier1:
  "loop_body fs sc ic live w st s c = (out, s', c') \<Longrightarrow> station_id_of fs w = Inr k \<Longrightarrow>
   \<not> contains st k \<Longrightarrow> tier1 sc w r \<Longrightarrow>
   out = Inr (setitem st k r) \<and> s' = s \<and> c' = c"
  by (auto simp: loop_body_def tier1_def has_latitude_def split: sum.splits)

lemma loop_body_tier2:
  "loop_body fs sc ic live w st s c = (out, s', c') \<Longrightarrow> station_id_of fs w = Inr k \<Longrightarrow>
   \<not> contains st k \<Longrightarrow> lookup_stat_coords sc w = Some x \<Longrightarrow> null_latitude x \<Longrightarrow>
   tier2 w \<Longrightarrow>
   out = Inr (setitem st k w) \<and> s' = s \<and> c' = c"
  by (auto simp: loop_body_def tier2_def has_latitude_def null_latitude_def split: sum.splits)

lemma loop_body_tier3:
  "loop_body fs sc ic live w st s c = (out, s', c') \<Longrightarrow> station_id_of fs w = Inr k \<Longrightarrow>
   \<not> contains st k \<Longrightarrow> lookup_stat_coords sc w = Some x \<Longrightarrow> null_latitude x \<Longrightarrow>
   null_latitude w \<Longrightarrow> map_of ic k = Some r \<Longrightarrow> true_latitude r \<Longrightarrow>
   out = Inr (setitem st k r) \<and> s' = s \<and> c' = c"
  by (auto simp: loop_body_def from_inventory_def null_latitude_def true_latitude_def
      contains_def getitem_def split: sum.splits option.splits)

text \<open>
  C1, as the code has it. The tiers are tried in their order for one waveform entry at
  a time, and the first record accepted for a station stays. Let \<open>w\<close> be an entry of
  the station \<open>station_id\<close> before which the station is not in the dictionary
  (\<open>mid\<close> is the dictionary after the entries \<open>pre\<close> before \<open>w\<close>). Then the
  result has for the station
  \<^item> the station-file record of the channel of \<open>w\<close> when it has a latitude (tier 1),
    whatever the waveform entry and the inventory snapshot hold;
  \<^item> else the entry \<open>w\<close> when it carries a latitude (tier 2), whatever the snapshot
    holds;
  \<^item> else the record of the snapshot when its latitude is true (tier 3);
  and no entry after \<open>w\<close> changes it.
\<close>

theorem tiers_in_order_at_first_resolving_entry:
  assumes "collect_information comm event_name s =
             (Inr (pre @ w # post, station_coordinates, inventory_coordinates, live), calls)"
    and "get_all_stations_for_event float_str comm event_name s = (Inr result, s', calls')"
    and "stations_loop float_str station_coordinates inventory_coordinates live
           pre [] s calls = (Inr mid, s1, calls1)"
    and "\<not> contains mid station_id"
    and "station_id_of float_str w = Inr station_id"
  shows "(\<forall>r. tier1 station_coordinates w r \<longrightarrow> map_of result station_id = Some r) \<and>
         ((\<exists>x. lookup_stat_coords station_coordinates w = Some x \<and> null_latitude x) \<and>
            tier2 w \<longrightarrow>
          map_of result station_id = Some w) \<and>
         (\<forall>x r. lookup_stat_coords station_coordinates w = Some x \<and> null_latitude x \<and>
            null_latitude w \<and> map_of inventory_coordinates station_id = Some r \<and>
            true_latitude r \<longrightarrow>
          map_of result station_id = Some r)"
proof -
  from assms(1,2) have loop:
    "stations_loop float_str station_coordinates inventory_coordinates live
       (pre @ w # post) [] s calls = (Inr result, s', calls')"
    by (simp add: get_all_stations_for_event_def)
  with assms(3) have
    "stations_loop float_str station_coordinates inventory_coordinates live
       (w # post) mid s1 calls1 = (Inr result, s', calls')"
    by (simp add: stations_loop_append)
  then obtain st2 s2 calls2 where
    body: "loop_body float_str station_coordinates inventory_coordinates live
             w mid s1 calls1 = (Inr st2, s2, calls2)"
    and rest: "stations_loop float_str station_coordinates inventory_coordinates live
             post st2 s2 calls2 = (Inr result, s', calls')"
    by (auto split: prod.splits sum.splits)
  have kept: "map_of result station_id = Some r" if "st2 = setitem mid station_id r" for r
    using stations_loop_keeps [OF rest, of station_id r] that by (simp add: map_of_setitem)
  have "map_of result station_id = Some r" if "tier1 station_coordinates w r" for r
    using loop_body_tier1 [OF body assms(5,4) that] kept by simp
  moreover have "map_of result station_id = Some w"
    if "lookup_stat_coords station_coordinates w = Some x" "null_latitude x" "tier2 w" for x
    using loop_body_tier2 [OF body assms(5,4) that] kept by simp
  moreover have "map_of result station_id = Some r"
    if "lookup_stat_coords station_coordinates w = Some x" "null_latitude x" "null_latitude w"
      "map_of inventory_coordinates station_id = Some r" "true_latitude r" for x r
    using loop_body_tier3 [OF body assms(5,4) that] kept by simp
  ultimately show ?thesis by blast
qed

theorem tiers_in_order_at_first_resolving_entry_witness:
  "collect_information
     (example_comm [(''E1'', event_at 0)]
        [(''E1'', [waveform_entry ''NET'' ''STA'' ''BHE'' PyNone PyNone] @
                  waveform_entry ''NET'' ''STA'' ''BHZ'' (PyFloat 5) (PyFloat 6) #
                  [waveform_entry ''NET'' ''STA'' ''BHN'' PyNone PyNone])]
        [(PyStr ''NET.STA..BHZ'', coordinates (PyFloat 10) (PyFloat 20) (PyFloat 0) (PyFloat 0)),
         (PyStr ''NET.STA..BHN'', coordinates (PyFloat 11) (PyFloat 21) (PyFloat 0) (PyFloat 0))]
        (cached_inventory [])) ''E1''
     [(''NET.STA'', coordinates (PyFloat 7) (PyFloat 8) (PyFloat 0) (PyFloat 0))] =
     (Inr ([waveform_entry ''NET'' ''STA'' ''BHE'' PyNone PyNone] @
           waveform_entry ''NET'' ''STA'' ''BHZ'' (PyFloat 5) (PyFloat 6) #
           [waveform_entry ''NET'' ''STA'' ''BHN'' PyNone PyNone],
           [(PyStr ''NET.STA..BHZ'',
             coordinates (PyFloat 10) (PyFloat 20) (PyFloat 0) (PyFloat 0)),
            (PyStr ''NET.STA..BHN'',
             coordinates (PyFloat 11) (PyFloat 21) (PyFloat 0) (PyFloat 0))],
           [(''NET.STA'', coordinates (PyFloat 7) (PyFloat 8) (PyFloat 0) (PyFloat 0))],
           cache_live []),
      collect_calls ''E1'' (PyFloat 0)) \<and>
   get_all_stations_for_event example_float_str
     (example_comm [(''E1'', event_at 0)]
        [(''E1'', [waveform_entry ''NET'' ''STA'' ''BHE'' PyNone PyNone] @
                  waveform_entry ''NET'' ''STA'' ''BHZ'' (PyFloat 5) (PyFloat 6) #
                  [waveform_entry ''NET'' ''STA'' ''BHN'' PyNone PyNone])]
        [(PyStr ''NET.STA..BHZ'', coordinates (PyFloat 10) (PyFloat 20) (PyFloat 0) (PyFloat 0)),
         (PyStr ''NET.STA..BHN'', coordinates (PyFloat 11) (PyFloat 21) (PyFloat 0) (PyFloat 0))]
        (cached_inventory [])) ''E1''
     [(''NET.STA'', coordinates (PyFloat 7) (PyFloat 8) (PyFloat 0) (PyFloat 0))] =
     (Inr [(''NET.STA'', coordinates (PyFloat 10) (PyFloat 20) (PyFloat 0) (PyFloat 0))],
      [(''NET.STA'', coordinates (PyFloat 7) (PyFloat 8) (PyFloat 0) (PyFloat 0))],
      collect_calls ''E1'' (PyFloat 0)) \<and>
   stations_loop example_float_str
     [(PyStr ''NET.STA..BHZ'', coordinates (PyFloat 10) (PyFloat 20) (PyFloat 0) (PyFloat 0)),
      (PyStr ''NET.STA..BHN'', coordinates (PyFloat 11) (PyFloat 21) (PyFloat 0) (PyFloat 0))]
     [(''NET.STA'', coordinates (PyFloat 7) (PyFloat 8) (PyFloat 0) (PyFloat 0))]
     (cache_live []) [waveform_entry ''NET'' ''STA'' ''BHE'' PyNone PyNone] []
     [(''NET.STA'', coordinates (PyFloat 7) (PyFloat 8) (PyFloat 0) (PyFloat 0))]
     (collect_calls ''E1'' (PyFloat 0)) =
     (Inr [], [(''NET.STA'', coordinates (PyFloat 7) (PyFloat 8) (PyFloat 0) (PyFloat 0))],
      collect_calls ''E1'' (PyFloat 0)) \<and>
   \<not> contains ([] :: stations) ''NET.STA'' \<and>
   station_id_of example_float_str
     (waveform_entry ''NET'' ''STA'' ''BHZ'' (PyFloat 5) (PyFloat 6)) = Inr ''NET.STA'' \<and>
   tier1
     [(PyStr ''NET.STA..BHZ'', coordinates (PyFloat 10) (PyFloat 20) (PyFloat 0) (PyFloat 0)),
      (PyStr ''NET.STA..BHN'', coordinates (PyFloat 11) (PyFloat 21) (PyFloat 0) (PyFloat 0))]
     (waveform_entry ''NET'' ''STA'' ''BHZ'' (PyFloat 5) (PyFloat 6))
     (coordinates (PyFloat 10) (PyFloat 20) (PyFloat 0) (PyFloat 0)) \<and>
   tier2 (waveform_entry ''NET'' ''STA'' ''BHZ'' (PyFloat 5) (PyFloat 6)) \<and>
   tier3 [(''NET.STA'', coordinates (PyFloat 7) (PyFloat 8) (PyFloat 0) (PyFloat 0))]
     ''NET.STA'' (coordinates (PyFloat 7) (PyFloat 8) (PyFloat 0) (PyFloat 0)) \<and>
   map_of [(''NET.STA'', coordinates (PyFloat 10) (PyFloat 20) (PyFloat 0) (PyFloat 0))]
     ''NET.STA'' = Some (coordinates (PyFloat 10) (PyFloat 20) (PyFloat 0) (PyFloat 0))"
  (is "?h1 \<and> ?h2 \<and> ?h3 \<and> ?h4 \<and> ?h5 \<and> ?t1 \<and> ?t2 \<and> ?t3 \<and> ?c")
proof -
  have h1: ?h1
    by (simp add: collect_information_cached event_at_def)
  have h2: ?h2
    unfolding get_all_stations_for_event_def h1 by (simp add: eval_defs)
  have h3: ?h3
    by (simp add: eval_defs)
  have h4: ?h4
    by (simp add: contains_def)
  have h5: ?h5
    by (simp add: eval_defs)
  have t1: ?t1
    by (simp add: tier1_def has_latitude_def eval_defs)
  have t2: ?t2
    by (simp add: tier2_def has_latitude_def eval_defs)
  have t3: ?t3
    by (simp add: tier3_def has_latitude_def eval_defs)
  have c: ?c
    using tiers_in_order_at_first_resolving_entry [OF h1 h2 h3 h4 h5] t1 by blast
  show ?thesis
    by (rule conjI [OF h1 conjI [OF h2 conjI [OF h3 conjI [OF h4 conjI [OF h5
          conjI [OF t1 conjI [OF t2 conjI [OF t3 c]]]]]]]])
qed

text \<open>
  C1 as it is stated fails: the first entry of a station that is accepted decides, not
  the highest tier that any entry of the station reaches. Here the station is resolvable
  at tier 1 through its second entry and at tier 3; the first entry has a station file
  without a latitude, so the snapshot of the inventory database gives the record, and
  the second entry is skipped.
\<close>

theorem later_tier1_entry_does_not_win:
  "station_id_of example_float_str (waveform_entry ''NET'' ''STA'' ''BHN'' PyNone PyNone) =
     Inr ''NET.STA'' \<and>
   tier1
     [(PyStr ''NET.STA..BHZ'', coordinates PyNone PyNone PyNone PyNone),
      (PyStr ''NET.STA..BHN'', coordinates (PyFloat 10) (PyFloat 20) (PyFloat 0) (PyFloat 0))]
     (waveform_entry ''NET'' ''STA'' ''BHN'' PyNone PyNone)
     (coordinates (PyFloat 10) (PyFloat 20) (PyFloat 0) (PyFloat 0)) \<and>
   tier3 [(''NET.STA'', coordinates (PyFloat 7) (PyFloat 8) (PyFloat 0) (PyFloat 0))]
     ''NET.STA'' (coordinates (PyFloat 7) (PyFloat 8) (PyFloat 0) (PyFloat 0)) \<and>
   get_all_stations_for_event example_float_str
     (example_comm [(''E1'', event_at 0)]
        [(''E1'', [waveform_entry ''NET'' ''STA'' ''BHZ'' PyNone PyNone,
                   waveform_entry ''NET'' ''STA'' ''BHN'' PyNone PyNone])]
        [(PyStr ''NET.STA..BHZ'', coordinates PyNone PyNone PyNone PyNone),
         (PyStr ''NET.STA..BHN'', coordinates (PyFloat 10) (PyFloat 20) (PyFloat 0) (PyFloat 0))]
        (cached_inventory [])) ''E1''
     [(''NET.STA'', coordinates (PyFloat 7) (PyFloat 8) (PyFloat 0) (PyFloat 0))] =
     (Inr [(''NET.STA'', coordinates (PyFloat 7) (PyFloat 8) (PyFloat 0) (PyFloat 0))],
      [(''NET.STA'', coordinates (PyFloat 7) (PyFloat 8) (PyFloat 0) (PyFloat 0))],
      collect_calls ''E1'' (PyFloat 0)) \<and>
   coordinates (PyFloat 7) (PyFloat 8) (PyFloat 0) (PyFloat 0) \<noteq>
     coordinates (PyFloat 10) (PyFloat 20) (PyFloat 0) (PyFloat 0)"
  (is "?a \<and> ?b \<and> ?c \<and> ?d \<and> ?e")
proof -
  have a: ?a
    by (simp add: eval_defs)
  have b: ?b
    by (simp add: tier1_def has_latitude_def eval_defs)
  have c: ?c
    by (simp add: tier3_def has_latitude_def eval_defs)
  have "collect_information
     (example_comm [(''E1'', event_at 0)]
        [(''E1'', [waveform_entry ''NET'' ''STA'' ''BHZ'' PyNone PyNone,
                   waveform_entry ''NET'' ''STA'' ''BHN'' PyNone PyNone])]
        [(PyStr ''NET.STA..BHZ'', coordinates PyNone PyNone PyNone PyNone),
         (PyStr ''NET.STA..BHN'', coordinates (PyFloat 10) (PyFloat 20) (PyFloat 0) (PyFloat 0))]
        (cached_inventory [])) ''E1''
     [(''NET.STA'', coordinates (PyFloat 7) (PyFloat 8) (PyFloat 0) (PyFloat 0))] =
     (Inr ([waveform_entry ''NET'' ''STA'' ''BHZ'' PyNone PyNone,
            waveform_entry ''NET'' ''STA'' ''BHN'' PyNone PyNone],
           [(PyStr ''NET.STA..BHZ'', coordinates PyNone PyNone PyNone PyNone),
            (PyStr ''NET.STA..BHN'',
             coordinates (PyFloat 10) (PyFloat 20) (PyFloat 0) (PyFloat 0))],
           [(''NET.STA'', coordinates (PyFloat 7) (PyFloat 8) (PyFloat 0) (PyFloat 0))],
           cache_live []),
      collect_calls ''E1'' (PyFloat 0))"
    by (simp add: collect_information_cached event_at_def)
  then have d: ?d
    unfolding get_all_stations_for_event_def by (simp add: eval_defs)
  have e: ?e
    by (simp add: coordinates_def)
  show ?thesis
    by (rule conjI [OF a conjI [OF b conjI [OF c conjI [OF d e]]]])
qed

section \<open>Coordinates embedded in the waveform metadata\<close>

lemma loop_body_no_station_file:
  "station_id_of fs w = Inr k \<Longrightarrow> lookup_stat_coords sc w = None \<Longrightarrow>
   loop_body fs sc ic live w st s c = (Inr st, s, c)"
  by (simp add: loop_body_def)

text \<open>
  C3, as the code has it. For an event whose waveform-metadata listing is one entry
  \<open>w\<close> of a station:
  \<^item> with a station-file record for its channel whose latitude is null and with a
    non-null embedded latitude, the result of \<^verbatim>\<open>get_all_stations_for_event\<close> is
    that station with the waveform entry as its record (tier 2); the call makes no live
    query and leaves the inventory database as it was;
  \<^item> with no station-file record for its channel, the result is empty, whatever
    latitude the entry carries: the body of the loop skips such an entry wherever it
    stands in a listing, leaving the dictionary, the inventory database and the calls
    as they are.
\<close>

theorem embedded_coordinates_with_null_station_file:
  assumes "collect_information comm event_name s =
             (Inr ([w], station_coordinates, inventory_coordinates, live), calls)"
    and "station_id_of float_str w = Inr station_id"
  shows "(\<forall>x. lookup_stat_coords station_coordinates w = Some x \<and> null_latitude x \<and> tier2 w \<longrightarrow>
            get_all_stations_for_event float_str comm event_name s =
              (Inr [(station_id, w)], s, calls)) \<and>
         (lookup_stat_coords station_coordinates w = None \<longrightarrow>
            get_all_stations_for_event float_str comm event_name s = (Inr [], s, calls) \<and>
            (\<forall>stations s1 calls1.
               loop_body float_str station_coordinates inventory_coordinates live
                 w stations s1 calls1 = (Inr stations, s1, calls1)))"
proof -
  have tier2_case: "get_all_stations_for_event float_str comm event_name s =
      (Inr [(station_id, w)], s, calls)"
    if x: "lookup_stat_coords station_coordinates w = Some x" "null_latitude x" "tier2 w" for x
  proof -
    obtain out s' calls' where body:
      "loop_body float_str station_coordinates inventory_coordinates live w [] s calls =
         (out, s', calls')"
      by (cases "loop_body float_str station_coordinates inventory_coordinates live w [] s calls")
        auto
    have "\<not> contains ([] :: stations) station_id"
      by (simp add: contains_def)
    from loop_body_tier2 [OF body assms(2) this x] body
    have "loop_body float_str station_coordinates inventory_coordinates live w [] s calls =
            (Inr [(station_id, w)], s, calls)"
      by (simp add: setitem_def)
    with assms(1) show ?thesis
      by (simp add: get_all_stations_for_event_def)
  qed
  have skip_case: "get_all_stations_for_event float_str comm event_name s = (Inr [], s, calls)"
    if "lookup_stat_coords station_coordinates w = None"
  proof -
    have "loop_body float_str station_coordinates inventory_coordinates live w [] s calls =
        (Inr [], s, calls)"
      by (rule loop_body_no_station_file [OF assms(2) that])
    with assms(1) show ?thesis
      by (simp add: get_all_stations_for_event_def)
  qed
  have skip_body: "loop_body float_str station_coordinates inventory_coordinates live
      w stations s1 calls1 = (Inr stations, s1, calls1)"
    if "lookup_stat_coords station_coordinates w = None" for stations s1 calls1
    by (rule loop_body_no_station_file [OF assms(2) that])
  from tier2_case skip_case skip_body show ?thesis by blast
qed

theorem embedded_coordinates_with_null_station_file_witness:
  "collect_information
     (example_comm [(''E2'', event_at 0)]
        [(''E2'', [waveform_entry ''NET'' ''STB'' ''BHZ'' (PyFloat 5) (PyFloat 6)])]
        [(PyStr ''NET.STB..BHZ'', coordinates PyNone PyNone PyNone PyNone)]
        (uncached_inventory [])) ''E2'' () =
     (Inr ([waveform_entry ''NET'' ''STB'' ''BHZ'' (PyFloat 5) (PyFloat 6)],
           [(PyStr ''NET.STB..BHZ'', coordinates PyNone PyNone PyNone PyNone)],
           [], remote_live []),
      collect_calls ''E2'' (PyFloat 0)) \<and>
   station_id_of example_float_str
     (waveform_entry ''NET'' ''STB'' ''BHZ'' (PyFloat 5) (PyFloat 6)) = Inr ''NET.STB'' \<and>
   lookup_stat_coords
     [(PyStr ''NET.STB..BHZ'', coordinates PyNone PyNone PyNone PyNone)]
     (waveform_entry ''NET'' ''STB'' ''BHZ'' (PyFloat 5) (PyFloat 6)) =
     Some (coordinates PyNone PyNone PyNone PyNone) \<and>
   null_latitude (coordinates PyNone PyNone PyNone PyNone) \<and>
   tier2 (waveform_entry ''NET'' ''STB'' ''BHZ'' (PyFloat 5) (PyFloat 6)) \<and>
   get_all_stations_for_event example_float_str
     (example_comm [(''E2'', event_at 0)]
        [(''E2'', [waveform_entry ''NET'' ''STB'' ''BHZ'' (PyFloat 5) (PyFloat 6)])]
        [(PyStr ''NET.STB..BHZ'', coordinates PyNone PyNone PyNone PyNone)]
        (uncached_inventory [])) ''E2'' () =
     (Inr [(''NET.STB'', waveform_entry ''NET'' ''STB'' ''BHZ'' (PyFloat 5) (PyFloat 6))], (),
      collect_calls ''E2'' (PyFloat 0)) \<and>
   collect_information
     (example_comm [(''E2'', event_at 0)]
        [(''E2'', [waveform_entry ''NET'' ''STB'' ''BHZ'' (PyFloat 5) (PyFloat 6)])]
        [] (uncached_inventory [])) ''E2'' () =
     (Inr ([waveform_entry ''NET'' ''STB'' ''BHZ'' (PyFloat 5) (PyFloat 6)], [], [],
           remote_live []),
      collect_calls ''E2'' (PyFloat 0)) \<and>
   lookup_stat_coords [] (waveform_entry ''NET'' ''STB'' ''BHZ'' (PyFloat 5) (PyFloat 6)) =
     None \<and>
   get_all_stations_for_event example_float_str
     (example_comm [(''E2'', event_at 0)]
        [(''E2'', [waveform_entry ''NET'' ''STB'' ''BHZ'' (PyFloat 5) (PyFloat 6)])]
        [] (uncached_inventory [])) ''E2'' () =
     (Inr [], (), collect_calls ''E2'' (PyFloat 0))"
  (is "?h1 \<and> ?h2 \<and> ?h3 \<and> ?h4 \<and> ?h5 \<and> ?c \<and> ?k1 \<and> ?k3 \<and> ?d")
proof -
  have h1: ?h1
    by (simp add: collect_information_uncached event_at_def)
  have h2: ?h2
    by (simp add: eval_defs)
  have h3: ?h3
    by (simp add: eval_defs)
  have h4: ?h4
    by (simp add: null_latitude_def eval_defs)
  have h5: ?h5
    by (simp add: tier2_def has_latitude_def eval_defs)
  have c: ?c
    using embedded_coordinates_with_null_station_file [OF h1 h2] h3 h4 h5 by blast
  have k1: ?k1
    by (simp add: collect_information_uncached event_at_def)
  have k3: ?k3
    by (simp add: eval_defs)
  have d: ?d
    using embedded_coordinates_with_null_station_file [OF k1 h2] k3 by blast
  show ?thesis
    by (rule conjI [OF h1 conjI [OF h2 conjI [OF h3 conjI [OF h4 conjI [OF h5
          conjI [OF c conjI [OF k1 conjI [OF k3 d]]]]]]]])
qed

text \<open>
  C3 as it is stated fails: without a station file for the channel the entry is skipped
  (\<^verbatim>\<open>except KeyError: continue\<close>) before the embedded latitude is looked at.
  For the event E2 of the specification, with one entry of NET.STB, no station file and
  the embedded latitude 5.0, the result is empty.
\<close>

theorem embedded_coordinates_without_station_file:
  "lookup_stat_coords [] (waveform_entry ''NET'' ''STB'' ''BHZ'' (PyFloat 5) (PyFloat 6)) = None \<and>
   getitem (waveform_entry ''NET'' ''STB'' ''BHZ'' (PyFloat 5) (PyFloat 6)) ''latitude'' =
     Inr (PyFloat 5) \<and>
   get_all_stations_for_event example_float_str
     (example_comm [(''E2'', event_at 0)]
        [(''E2'', [waveform_entry ''NET'' ''STB'' ''BHZ'' (PyFloat 5) (PyFloat 6)])]
        [] (cached_inventory [])) ''E2'' [] =
     (Inr [], [], collect_calls ''E2'' (PyFloat 0))"
  (is "?a \<and> ?b \<and> ?c")
proof -
  have a: ?a
    by (simp add: eval_defs)
  have b: ?b
    by (simp add: eval_defs)
  have "collect_information
     (example_comm [(''E2'', event_at 0)]
        [(''E2'', [waveform_entry ''NET'' ''STB'' ''BHZ'' (PyFloat 5) (PyFloat 6)])]
        [] (cached_inventory [])) ''E2'' [] =
     (Inr ([waveform_entry ''NET'' ''STB'' ''BHZ'' (PyFloat 5) (PyFloat 6)], [], [],
           cache_live []),
      collect_calls ''E2'' (PyFloat 0))"
    by (simp add: collect_information_cached event_at_def)
  then have c: ?c
    unfolding get_all_stations_for_event_def by (simp add: eval_defs)
  show ?thesis
    by (rule conjI [OF a conjI [OF b c]])
qed

section \<open>A latitude of zero in the inventory database\<close>

text \<open>
  C4 asks that a station reaching tier 3 or tier 4 is accepted when the latitude of the
  inventory record is present and non-null, the value 0.0 included. The code tests
  \<^verbatim>\<open>if coords["latitude"]:\<close> there, which is false for 0.0, while tiers 1 and 2
  test \<^verbatim>\<open>is not None\<close>. For a station on the equator whose station file and
  waveform entry have no latitude, the result is empty both when the snapshot has the
  record (tier 3) and when the live query returns it (tier 4).
\<close>

theorem zero_latitude_of_inventory_rejected:
  "tier3 [(''NET.STC'', coordinates (PyFloat 0) (PyFloat 10) (PyFloat 0) (PyFloat 0))]
     ''NET.STC'' (coordinates (PyFloat 0) (PyFloat 10) (PyFloat 0) (PyFloat 0)) \<and>
   get_all_stations_for_event example_float_str
     (example_comm [(''E4'', event_at 0)]
        [(''E4'', [waveform_entry ''NET'' ''STC'' ''BHZ'' PyNone PyNone])]
        [(PyStr ''NET.STC..BHZ'', coordinates PyNone PyNone PyNone PyNone)]
        (cached_inventory [])) ''E4''
     [(''NET.STC'', coordinates (PyFloat 0) (PyFloat 10) (PyFloat 0) (PyFloat 0))] =
     (Inr [], [(''NET.STC'', coordinates (PyFloat 0) (PyFloat 10) (PyFloat 0) (PyFloat 0))],
      collect_calls ''E4'' (PyFloat 0)) \<and>
   remote_live [(''NET.STC'', coordinates (PyFloat 0) (PyFloat 10) (PyFloat 0) (PyFloat 0))]
     ''NET.STC'' () =
     (Inr (coordinates (PyFloat 0) (PyFloat 10) (PyFloat 0) (PyFloat 0)), ()) \<and>
   has_latitude (coordinates (PyFloat 0) (PyFloat 10) (PyFloat 0) (PyFloat 0)) \<and>
   get_all_stations_for_event example_float_str
     (example_comm [(''E4'', event_at 0)]
        [(''E4'', [waveform_entry ''NET'' ''STC'' ''BHZ'' PyNone PyNone])]
        [(PyStr ''NET.STC..BHZ'', coordinates PyNone PyNone PyNone PyNone)]
        (uncached_inventory
           [(''NET.STC'', coordinates (PyFloat 0) (PyFloat 10) (PyFloat 0) (PyFloat 0))]))
     ''E4'' () =
     (Inr [], (), collect_calls ''E4'' (PyFloat 0) @ [Call_get_coordinates ''NET.STC''])"
  (is "?a \<and> ?b \<and> ?c \<and> ?d \<and> ?e")
proof -
  have a: ?a
    by (simp add: tier3_def has_latitude_def eval_defs)
  have "collect_information
     (example_comm [(''E4'', event_at 0)]
        [(''E4'', [waveform_entry ''NET'' ''STC'' ''BHZ'' PyNone PyNone])]
        [(PyStr ''NET.STC..BHZ'', coordinates PyNone PyNone PyNone PyNone)]
        (cached_inventory [])) ''E4''
     [(''NET.STC'', coordinates (PyFloat 0) (PyFloat 10) (PyFloat 0) (PyFloat 0))] =
     (Inr ([waveform_entry ''NET'' ''STC'' ''BHZ'' PyNone PyNone],
           [(PyStr ''NET.STC..BHZ'', coordinates PyNone PyNone PyNone PyNone)],
           [(''NET.STC'', coordinates (PyFloat 0) (PyFloat 10) (PyFloat 0) (PyFloat 0))],
           cache_live []),
      collect_calls ''E4'' (PyFloat 0))"
    by (simp add: collect_information_cached event_at_def)
  then have b: ?b
    unfolding get_all_stations_for_event_def by (simp add: eval_defs)
  have c: ?c
    by (simp add: eval_defs)
  have d: ?d
    by (simp add: has_latitude_def eval_defs)
  have "collect_information
     (example_comm [(''E4'', event_at 0)]
        [(''E4'', [waveform_entry ''NET'' ''STC'' ''BHZ'' PyNone PyNone])]
        [(PyStr ''NET.STC..BHZ'', coordinates PyNone PyNone PyNone PyNone)]
        (uncached_inventory
           [(''NET.STC'', coordinates (PyFloat 0) (PyFloat 10) (PyFloat 0) (PyFloat 0))]))
     ''E4'' () =
     (Inr ([waveform_entry ''NET'' ''STC'' ''BHZ'' PyNone PyNone],
           [(PyStr ''NET.STC..BHZ'', coordinates PyNone PyNone PyNone PyNone)],
           [],
           remote_live
             [(''NET.STC'', coordinates (PyFloat 0) (PyFloat 10) (PyFloat 0) (PyFloat 0))]),
      collect_calls ''E4'' (PyFloat 0))"
    by (simp add: collect_information_uncached event_at_def)
  then have e: ?e
    unfolding get_all_stations_for_event_def by (simp add: eval_defs)
  show ?thesis
    by (rule conjI [OF a conjI [OF b conjI [OF c conjI [OF d e]]]])
qed

section \<open>The components that a project registers\<close>

lemma project_communicator_eq:
  "project_communicator ev_get wf_get =
     Inr [(''project'', Other_Component),
          (''events'', Events_Component ev_get),
          (''waveforms'', Waveforms_Component wf_get),
          (''kernels'', Other_Component),
          (''iterations'', Other_Component),
          (''query'', Other_Component),
          (''visualizations'', Other_Component),
          (''actions'', Other_Component),
          (''validator'', Other_Component),
          (''wins_and_adj_sources'', Other_Component),
          (''downloads'', Other_Component)]"
  by (simp add: project_communicator_def setup_components_def register_def contains_def
      setitem_def)

text \<open>
  C2 asks that the waveform metadata store, the station-file store and the inventory
  cache are registered before the resolver operates, so that its lookups of
  \<^verbatim>\<open>waveforms\<close>, \<^verbatim>\<open>stations\<close> and \<^verbatim>\<open>inventory_db\<close> never fail.
  \<^verbatim>\<open>Project.__setup_components\<close> registers the events and the waveforms
  component, but no component under the name \<^verbatim>\<open>stations\<close> or
  \<^verbatim>\<open>inventory_db\<close>: in the communicator of a project, for every event that the
  events and the waveforms component know, \<^verbatim>\<open>get_all_stations_for_event\<close> fails
  with \<open>NotFoundError\<close> at \<^verbatim>\<open>self.comm.stations\<close>, after the two calls
  before it.
\<close>

theorem project_registers_no_stations_component:
  assumes "project_communicator ev_get wf_get = Inr comm"
    and "ev_get event_name = Inr event"
    and "wf_get event_name = Inr waveform_metadata"
  shows "get comm ''waveforms'' = Inr (Waveforms_Component wf_get) \<and>
         get comm ''stations'' = Inl NotFoundError \<and>
         get comm ''inventory_db'' = Inl NotFoundError \<and>
         get_all_stations_for_event float_str comm event_name s =
           (Inl NotFoundError, s,
            [Call_events_get event_name, Call_get_metadata_raw event_name])"
proof -
  from assms(1) have comm: "comm =
     [(''project'', Other_Component),
      (''events'', Events_Component ev_get),
      (''waveforms'', Waveforms_Component wf_get),
      (''kernels'', Other_Component),
      (''iterations'', Other_Component),
      (''query'', Other_Component),
      (''visualizations'', Other_Component),
      (''actions'', Other_Component),
      (''validator'', Other_Component),
      (''wins_and_adj_sources'', Other_Component),
      (''downloads'', Other_Component)]"
    by (simp add: project_communicator_eq)
  have g1: "get comm ''events'' = Inr (Events_Component ev_get)"
    by (simp add: comm get_def)
  have g2: "get comm ''waveforms'' = Inr (Waveforms_Component wf_get)"
    by (simp add: comm get_def)
  have g3: "get comm ''stations'' = Inl NotFoundError"
    by (simp add: comm get_def)
  have g4: "get comm ''inventory_db'' = Inl NotFoundError"
    by (simp add: comm get_def)
  have "collect_information comm event_name s =
          (Inl NotFoundError, [Call_events_get event_name, Call_get_metadata_raw event_name])"
    by (simp add: collect_information_def or_raise_def g1 g2 g3 assms(2,3))
  then have "get_all_stations_for_event float_str comm event_name s =
           (Inl NotFoundError, s,
            [Call_events_get event_name, Call_get_metadata_raw event_name])"
    by (simp add: get_all_stations_for_event_def)
  with g2 g3 g4 show ?thesis by simp
qed

theorem project_registers_no_stations_component_witness:
  "project_communicator (events_of [(''E1'', event_at 0)])
     (waveforms_of [(''E1'', [waveform_entry ''NET'' ''STA'' ''BHZ'' PyNone PyNone])]) =
     Inr ([(''project'', Other_Component),
           (''events'', Events_Component (events_of [(''E1'', event_at 0)])),
           (''waveforms'', Waveforms_Component
              (waveforms_of [(''E1'', [waveform_entry ''NET'' ''STA'' ''BHZ'' PyNone PyNone])])),
           (''kernels'', Other_Component),
           (''iterations'', Other_Component),
           (''query'', Other_Component),
           (''visualizations'', Other_Component),
           (''actions'', Other_Component),
           (''validator'', Other_Component),
           (''wins_and_adj_sources'', Other_Component),
           (''downloads'', Other_Component)] :: unit communicator) \<and>
   events_of [(''E1'', event_at 0)] ''E1'' = Inr (event_at 0) \<and>
   waveforms_of [(''E1'', [waveform_entry ''NET'' ''STA'' ''BHZ'' PyNone PyNone])] ''E1'' =
     Inr [waveform_entry ''NET'' ''STA'' ''BHZ'' PyNone PyNone] \<and>
   get_all_stations_for_event example_float_str
     ([(''project'', Other_Component),
       (''events'', Events_Component (events_of [(''E1'', event_at 0)])),
       (''waveforms'', Waveforms_Component
          (waveforms_of [(''E1'', [waveform_entry ''NET'' ''STA'' ''BHZ'' PyNone PyNone])])),
       (''kernels'', Other_Component),
       (''iterations'', Other_Component),
       (''query'', Other_Component),
       (''visualizations'', Other_Component),
       (''actions'', Other_Component),
       (''validator'', Other_Component),
       (''wins_and_adj_sources'', Other_Component),
       (''downloads'', Other_Component)] :: unit communicator) ''E1'' () =
     (Inl NotFoundError, (), [Call_events_get ''E1'', Call_get_metadata_raw ''E1''])"
  (is "?h1 \<and> ?h2 \<and> ?h3 \<and> ?c")
proof -
  have h1: ?h1
    by (rule project_communicator_eq)
  have h2: ?h2
    by (simp add: events_of_def)
  have h3: ?h3
    by (simp add: waveforms_of_def)
  have c: ?c
    using project_registers_no_stations_component [OF h1 h2 h3] by blast
  show ?thesis
    by (rule conjI [OF h1 conjI [OF h2 conjI [OF h3 c]]])
qed

section \<open>Repeated live queries within one call\<close>

lemma count_list_append: "count_list (xs @ ys) x = count_list xs x + count_list ys x"
  by (induction xs) auto

lemma live_queries_append: "live_queries (xs @ ys) = live_queries xs @ live_queries ys"
  by (induction xs rule: live_queries.induct) auto

lemma live_queries_map: "live_queries (map Call_get_coordinates ks) = ks"
  by (induction ks) auto

lemma after_queries_append:
  "after_queries live (xs @ ys) s = after_queries live ys (after_queries live xs s)"
  by (induction xs arbitrary: s) auto

text \<open>
  The state of the inventory database after the loop is the state after the live queries
  that the loop has made.
\<close>

lemma from_inventory_state:
  "from_inventory ic live k st s c = (out, s', c') \<Longrightarrow>
   (s' = s \<and> c' = c) \<or> (c' = c @ [Call_get_coordinates k] \<and> s' = snd (live k s))"
  by (auto simp: from_inventory_def split: sum.splits if_splits prod.splits)

lemma loop_body_state:
  "loop_body fs sc ic live w st s c = (out, s', c') \<Longrightarrow>
   (s' = s \<and> c' = c) \<or> (\<exists>k. c' = c @ [Call_get_coordinates k] \<and> s' = snd (live k s))"
  by (auto simp: loop_body_def split: sum.splits if_splits option.splits
      dest: from_inventory_state)

lemma stations_loop_state:
  "stations_loop fs sc ic live ws st s c = (out, s', c') \<Longrightarrow>
   \<exists>ks. c' = c @ map Call_get_coordinates ks \<and> s' = after_queries live ks s"
proof (induction ws arbitrary: st s c)
  case Nil
  then have "c' = c @ map Call_get_coordinates [] \<and> s' = after_queries live [] s"
    by simp
  then show ?case by blast
next
  case (Cons w ws)
  obtain out1 s1 c1 where body: "loop_body fs sc ic live w st s c = (out1, s1, c1)"
    by (cases "loop_body fs sc ic live w st s c") auto
  from loop_body_state [OF body] obtain ks1 where
    ks1: "c1 = c @ map Call_get_coordinates ks1" "s1 = after_queries live ks1 s"
  proof
    assume "s1 = s \<and> c1 = c"
    then have "c1 = c @ map Call_get_coordinates []" "s1 = after_queries live [] s"
      by simp_all
    then show ?thesis by (rule that)
  next
    assume "\<exists>k. c1 = c @ [Call_get_coordinates k] \<and> s1 = snd (live k s)"
    then obtain k where "c1 = c @ [Call_get_coordinates k]" "s1 = snd (live k s)"
      by blast
    then have "c1 = c @ map Call_get_coordinates [k]" "s1 = after_queries live [k] s"
      by simp_all
    then show ?thesis by (rule that)
  qed
  show ?case
  proof (cases out1)
    case (Inl e)
    with body Cons.prems have "c' = c1" "s' = s1"
      by simp_all
    with ks1 show ?thesis by blast
  next
    case (Inr st1)
    with body Cons.prems have "stations_loop fs sc ic live ws st1 s1 c1 = (out, s', c')"
      by simp
    from Cons.IH [OF this] obtain ks2 where
      "c' = c1 @ map Call_get_coordinates ks2" "s' = after_queries live ks2 s1"
      by blast
    with ks1 have "c' = c @ map Call_get_coordinates (ks1 @ ks2)"
      "s' = after_queries live (ks1 @ ks2) s"
      by (simp_all add: after_queries_append)
    then show ?thesis by blast
  qed
qed

text \<open>
  The live queries for a station that no tier resolves. \<open>unresolved\<close> is a property
  of the state of the inventory database that every live query keeps and under which
  the live query for the station returns a null latitude.
\<close>

lemma loop_body_live_queries:
  assumes "loop_body fs sc ic live w st s c = (Inr st', s', c')"
    and "\<not> contains ic k"
    and "\<not> contains st k"
    and "station_id_of fs w = Inr k \<longrightarrow>
           (\<forall>x. lookup_stat_coords sc w = Some x \<longrightarrow> null_latitude x \<and> null_latitude w)"
    and "unresolved s"
    and "\<forall>k' s1 a s2. unresolved s1 \<and> live k' s1 = (a, s2) \<longrightarrow> unresolved s2"
    and "\<forall>s1 r s2. unresolved s1 \<and> live k s1 = (Inr r, s2) \<longrightarrow> null_latitude r"
  shows "count_list c' (Call_get_coordinates k) =
           count_list c (Call_get_coordinates k) +
           (if station_id_of fs w = Inr k \<and> lookup_stat_coords sc w \<noteq> None then 1 else 0) \<and>
         \<not> contains st' k \<and> unresolved s'"
proof -
  have kept: "unresolved s'"
  proof -
    from loop_body_state [OF assms(1)] show ?thesis
    proof
      assume "s' = s \<and> c' = c"
      with assms(5) show ?thesis by simp
    next
      assume "\<exists>k'. c' = c @ [Call_get_coordinates k'] \<and> s' = snd (live k' s)"
      then obtain k' where "s' = snd (live k' s)"
        by blast
      then have "live k' s = (fst (live k' s), s')"
        by simp
      with assms(5,6) show ?thesis by blast
    qed
  qed
  have "count_list c' (Call_get_coordinates k) =
           count_list c (Call_get_coordinates k) +
           (if station_id_of fs w = Inr k \<and> lookup_stat_coords sc w \<noteq> None then 1 else 0) \<and>
         \<not> contains st' k"
  proof (cases "station_id_of fs w = Inr k")
    case True
    show ?thesis
    proof (cases "lookup_stat_coords sc w")
      case None
      with True assms(1,3) show ?thesis
        by (simp add: loop_body_def)
    next
      case (Some x)
      with True assms(4) have nx: "null_latitude x" and nw: "null_latitude w"
        by auto
      from True Some nx nw assms(1,3) have inv:
        "from_inventory ic live k st s c = (Inr st', s', c')"
        by (simp add: loop_body_def null_latitude_def)
      obtain out s2 where live: "live k s = (out, s2)"
        by (cases "live k s") auto
      show ?thesis
      proof (cases out)
        case (Inl e)
        with inv live assms(2) show ?thesis
          by (simp add: from_inventory_def)
      next
        case (Inr r)
        with live assms(5,7) have "null_latitude r"
          by blast
        with inv live Inr assms(2,3) True Some show ?thesis
          by (auto simp: from_inventory_def null_latitude_def count_list_append)
      qed
    qed
  next
    case False
    from loop_body_calls [OF assms(1)] have
      "c' = c \<or> (\<exists>k'. c' = c @ [Call_get_coordinates k'] \<and> station_id_of fs w = Inr k')"
      using assms(1)
      by (auto simp: loop_body_def from_inventory_def
          split: sum.splits if_splits option.splits prod.splits)
    with False have count: "count_list c' (Call_get_coordinates k) =
        count_list c (Call_get_coordinates k)"
      by (auto simp: count_list_append)
    have "\<not> contains st' k"
    proof
      assume "contains st' k"
      then obtain r where r: "map_of st' k = Some r"
        by (auto simp: contains_def)
      from loop_body_origin [OF assms(1) r] False assms(3) show False
        by (auto simp: contains_def)
    qed
    with count False show ?thesis by simp
  qed
  with kept show ?thesis by simp
qed

lemma stations_loop_live_queries:
  assumes "stations_loop fs sc ic live ws st s c = (Inr st', s', c')"
    and "\<not> contains ic k"
    and "\<not> contains st k"
    and "\<forall>w\<in>set ws. station_id_of fs w = Inr k \<longrightarrow>
           (\<forall>x. lookup_stat_coords sc w = Some x \<longrightarrow> null_latitude x \<and> null_latitude w)"
    and "unresolved s"
    and "\<forall>k' s1 a s2. unresolved s1 \<and> live k' s1 = (a, s2) \<longrightarrow> unresolved s2"
    and "\<forall>s1 r s2. unresolved s1 \<and> live k s1 = (Inr r, s2) \<longrightarrow> null_latitude r"
  shows "count_list c' (Call_get_coordinates k) =
           count_list c (Call_get_coordinates k) +
           length (entries_with_station_file fs sc k ws) \<and>
         \<not> contains st' k"
  using assms(1,3,4,5)
proof (induction ws arbitrary: st s c)
  case Nil
  then show ?case by (simp add: entries_with_station_file_def)
next
  case (Cons w ws)
  from Cons.prems(1) obtain st1 s1 c1 where
    body: "loop_body fs sc ic live w st s c = (Inr st1, s1, c1)"
    and rest: "stations_loop fs sc ic live ws st1 s1 c1 = (Inr st', s', c')"
    by (auto split: prod.splits sum.splits)
  from Cons.prems(3) have w: "station_id_of fs w = Inr k \<longrightarrow>
      (\<forall>x. lookup_stat_coords sc w = Some x \<longrightarrow> null_latitude x \<and> null_latitude w)"
    and ws: "\<forall>w\<in>set ws. station_id_of fs w = Inr k \<longrightarrow>
      (\<forall>x. lookup_stat_coords sc w = Some x \<longrightarrow> null_latitude x \<and> null_latitude w)"
    by simp_all
  from loop_body_live_queries [OF body assms(2) Cons.prems(2) w Cons.prems(4) assms(6,7)]
  have step: "count_list c1 (Call_get_coordinates k) =
      count_list c (Call_get_coordinates k) +
      (if station_id_of fs w = Inr k \<and> lookup_stat_coords sc w \<noteq> None then 1 else 0)"
    and absent: "\<not> contains st1 k"
    and kept: "unresolved s1"
    by simp_all
  from Cons.IH [OF rest absent ws kept] step show ?case
    by (simp add: entries_with_station_file_def)
qed

text \<open>A live answer with a true latitude is accepted.\<close>

lemma loop_body_tier4:
  "station_id_of fs w = Inr k \<Longrightarrow> \<not> contains st k \<Longrightarrow> \<not> contains ic k \<Longrightarrow>
   lookup_stat_coords sc w = Some x \<Longrightarrow> null_latitude x \<Longrightarrow> null_latitude w \<Longrightarrow>
   live k s = (Inr r, s2) \<Longrightarrow> true_latitude r \<Longrightarrow>
   loop_body fs sc ic live w st s c =
     (Inr (setitem st k r), s2, c @ [Call_get_coordinates k])"
  by (auto simp: loop_body_def from_inventory_def null_latitude_def true_latitude_def
      split: sum.splits)

text \<open>
  C10. During one call of \<^verbatim>\<open>get_all_stations_for_event\<close> the inventory snapshot
  taken at the start is never refreshed: for a station absent from the snapshot whose
  live query returns a null latitude, every waveform-metadata entry of that station that
  reaches tier 4 triggers a further live query, so one call can issue several live
  queries for the same station. Let the live query for the station return a null
  latitude in every state that the inventory database can reach (\<open>unresolved\<close> holds
  at the call, every live query keeps it, and under it the answer for the station has a
  null latitude), and let every entry of the station with a station file have a null
  latitude there and a null embedded latitude, so that it reaches tier 4. Then a call
  that returns has made exactly one call of \<^verbatim>\<open>get_all_coordinates\<close> and as many
  calls of \<^verbatim>\<open>get_coordinates\<close> for the station as the station has entries with a
  station file; the station is not in the result; and the inventory database is left in
  the state that the live queries of the call, made one after the other from the state
  at the call, lead to. The answer decides: at an entry of the station that reaches
  tier 4 in a state in which the live query returns a record with a true latitude, the
  body of the loop stores that record for the station, and the later entries of the
  station are skipped.
\<close>

theorem snapshot_not_refreshed_live_query_per_entry:
  assumes "collect_information comm event_name s =
             (Inr (waveform_metadata, station_coordinates, inventory_coordinates, live), calls)"
    and "get_all_stations_for_event float_str comm event_name s = (Inr result, s', calls')"
    and "\<not> contains inventory_coordinates station_id"
    and "\<forall>w\<in>set waveform_metadata. station_id_of float_str w = Inr station_id \<longrightarrow>
           (\<forall>x. lookup_stat_coords station_coordinates w = Some x \<longrightarrow>
              null_latitude x \<and> null_latitude w)"
    and "unresolved s"
    and "\<forall>k s1 a s2. unresolved s1 \<and> live k s1 = (a, s2) \<longrightarrow> unresolved s2"
    and "\<forall>s1 r s2. unresolved s1 \<and> live station_id s1 = (Inr r, s2) \<longrightarrow> null_latitude r"
  shows "count_list calls' Call_get_all_coordinates = 1 \<and>
         count_list calls' (Call_get_coordinates station_id) =
           length (entries_with_station_file float_str station_coordinates station_id
                     waveform_metadata) \<and>
         \<not> contains result station_id \<and>
         s' = after_queries live (live_queries calls') s \<and>
         (\<forall>w x stations s1 r s2 calls1.
            station_id_of float_str w = Inr station_id \<and> \<not> contains stations station_id \<and>
            lookup_stat_coords station_coordinates w = Some x \<and> null_latitude x \<and>
            null_latitude w \<and> live station_id s1 = (Inr r, s2) \<and> true_latitude r \<longrightarrow>
            loop_body float_str station_coordinates inventory_coordinates live
              w stations s1 calls1 =
              (Inr (setitem stations station_id r), s2,
               calls1 @ [Call_get_coordinates station_id]))"
proof -
  from assms(1,2) have loop:
    "stations_loop float_str station_coordinates inventory_coordinates live
       waveform_metadata [] s calls = (Inr result, s', calls')"
    by (simp add: get_all_stations_for_event_def)
  from collect_information_Inr_calls [OF assms(1)] obtain t where
    calls: "calls = collect_calls event_name t"
    by blast
  from stations_loop_state [OF loop] obtain ks where
    ks: "calls' = calls @ map Call_get_coordinates ks" "s' = after_queries live ks s"
    by blast
  have "count_list (map Call_get_coordinates ks) Call_get_all_coordinates = 0"
    by (induction ks) auto
  with ks(1) calls have once: "count_list calls' Call_get_all_coordinates = 1"
    by (simp add: count_list_append collect_calls_def)
  from ks(1) calls have "live_queries calls' = ks"
    by (simp add: live_queries_append live_queries_map collect_calls_def)
  with ks(2) have state: "s' = after_queries live (live_queries calls') s"
    by simp
  have "\<not> contains ([] :: stations) station_id"
    by (simp add: contains_def)
  from stations_loop_live_queries [OF loop assms(3) this assms(4,5,6,7)] calls
  have "count_list calls' (Call_get_coordinates station_id) =
           length (entries_with_station_file float_str station_coordinates station_id
                     waveform_metadata)"
    and "\<not> contains result station_id"
    by (simp_all add: collect_calls_def)
  moreover have "loop_body float_str station_coordinates inventory_coordinates live
        w stations s1 calls1 =
        (Inr (setitem stations station_id r), s2, calls1 @ [Call_get_coordinates station_id])"
    if "station_id_of float_str w = Inr station_id" "\<not> contains stations station_id"
      "lookup_stat_coords station_coordinates w = Some x" "null_latitude x" "null_latitude w"
      "live station_id s1 = (Inr r, s2)" "true_latitude r"
    for w x stations s1 r s2 calls1
    using that assms(3) by (intro loop_body_tier4 [where x = x]) simp_all
  ultimately show ?thesis using once state by blast
qed

theorem snapshot_not_refreshed_live_query_per_entry_witness:
  "collect_information
     (example_comm [(''E10'', event_at 0)]
        [(''E10'', [waveform_entry ''NET'' ''STE'' ''BHZ'' PyNone PyNone,
                    waveform_entry ''NET'' ''STE'' ''BHN'' PyNone PyNone])]
        [(PyStr ''NET.STE..BHZ'', coordinates PyNone PyNone PyNone PyNone),
         (PyStr ''NET.STE..BHN'', coordinates PyNone PyNone PyNone PyNone)]
        (cached_inventory [])) ''E10'' [] =
     (Inr ([waveform_entry ''NET'' ''STE'' ''BHZ'' PyNone PyNone,
            waveform_entry ''NET'' ''STE'' ''BHN'' PyNone PyNone],
           [(PyStr ''NET.STE..BHZ'', coordinates PyNone PyNone PyNone PyNone),
            (PyStr ''NET.STE..BHN'', coordinates PyNone PyNone PyNone PyNone)],
           [], cache_live []),
      collect_calls ''E10'' (PyFloat 0)) \<and>
   get_all_stations_for_event example_float_str
     (example_comm [(''E10'', event_at 0)]
        [(''E10'', [waveform_entry ''NET'' ''STE'' ''BHZ'' PyNone PyNone,
                    waveform_entry ''NET'' ''STE'' ''BHN'' PyNone PyNone])]
        [(PyStr ''NET.STE..BHZ'', coordinates PyNone PyNone PyNone PyNone),
         (PyStr ''NET.STE..BHN'', coordinates PyNone PyNone PyNone PyNone)]
        (cached_inventory [])) ''E10'' [] =
     (Inr [], [(''NET.STE'', coordinates PyNone PyNone PyNone PyNone)],
      collect_calls ''E10'' (PyFloat 0) @
      [Call_get_coordinates ''NET.STE'', Call_get_coordinates ''NET.STE'']) \<and>
   \<not> contains ([] :: (string, pydict) dict) ''NET.STE'' \<and>
   unresolved_in_cache ''NET.STE'' [] \<and>
   count_list
     (collect_calls ''E10'' (PyFloat 0) @
      [Call_get_coordinates ''NET.STE'', Call_get_coordinates ''NET.STE''])
     Call_get_all_coordinates = 1 \<and>
   count_list
     (collect_calls ''E10'' (PyFloat 0) @
      [Call_get_coordinates ''NET.STE'', Call_get_coordinates ''NET.STE''])
     (Call_get_coordinates ''NET.STE'') = 2 \<and>
   [(''NET.STE'', coordinates PyNone PyNone PyNone PyNone)] =
     after_queries (cache_live [])
       (live_queries
          (collect_calls ''E10'' (PyFloat 0) @
           [Call_get_coordinates ''NET.STE'', Call_get_coordinates ''NET.STE''])) [] \<and>
   loop_body example_float_str
     [(PyStr ''NET.STE..BHZ'', coordinates PyNone PyNone PyNone PyNone),
      (PyStr ''NET.STE..BHN'', coordinates PyNone PyNone PyNone PyNone)]
     [] (cache_live []) (waveform_entry ''NET'' ''STE'' ''BHZ'' PyNone PyNone) []
     [(''NET.STE'', coordinates (PyFloat 1) (PyFloat 2) (PyFloat 0) (PyFloat 0))] [] =
     (Inr (setitem [] ''NET.STE''
             (coordinates (PyFloat 1) (PyFloat 2) (PyFloat 0) (PyFloat 0))),
      [(''NET.STE'', coordinates (PyFloat 1) (PyFloat 2) (PyFloat 0) (PyFloat 0))],
      [] @ [Call_get_coordinates ''NET.STE''])"
  (is "?h1 \<and> ?h2 \<and> ?h3 \<and> ?h5 \<and> ?c1 \<and> ?c2 \<and> ?c3 \<and> ?c4")
proof -
  have h1: ?h1
    by (simp add: collect_information_cached event_at_def)
  have h2: ?h2
    unfolding get_all_stations_for_event_def h1 by (simp add: eval_defs Let_def)
  have h3: ?h3
    by (simp add: contains_def)
  have h4: "\<forall>w\<in>set [waveform_entry ''NET'' ''STE'' ''BHZ'' PyNone PyNone,
                     waveform_entry ''NET'' ''STE'' ''BHN'' PyNone PyNone].
      station_id_of example_float_str w = Inr ''NET.STE'' \<longrightarrow>
      (\<forall>x. lookup_stat_coords
              [(PyStr ''NET.STE..BHZ'', coordinates PyNone PyNone PyNone PyNone),
               (PyStr ''NET.STE..BHN'', coordinates PyNone PyNone PyNone PyNone)] w = Some x \<longrightarrow>
           null_latitude x \<and> null_latitude w)"
    by (simp add: null_latitude_def eval_defs)
  have h5: ?h5
    by (simp add: unresolved_in_cache_def)
  have h6: "\<forall>k s1 a s2. unresolved_in_cache ''NET.STE'' s1 \<and> cache_live [] k s1 = (a, s2) \<longrightarrow>
      unresolved_in_cache ''NET.STE'' s2"
    by (auto simp: unresolved_in_cache_def cache_live_def map_of_setitem null_latitude_def
        coordinates_def getitem_def Let_def split: option.splits if_splits)
  have h7: "\<forall>s1 r s2. unresolved_in_cache ''NET.STE'' s1 \<and>
      cache_live [] ''NET.STE'' s1 = (Inr r, s2) \<longrightarrow> null_latitude r"
    by (auto simp: unresolved_in_cache_def cache_live_def null_latitude_def
        coordinates_def getitem_def Let_def split: option.splits)
  have n: "length (entries_with_station_file example_float_str
      [(PyStr ''NET.STE..BHZ'', coordinates PyNone PyNone PyNone PyNone),
       (PyStr ''NET.STE..BHN'', coordinates PyNone PyNone PyNone PyNone)] ''NET.STE''
      [waveform_entry ''NET'' ''STE'' ''BHZ'' PyNone PyNone,
       waveform_entry ''NET'' ''STE'' ''BHN'' PyNone PyNone]) = 2"
    by (simp add: entries_with_station_file_def eval_defs)
  note concl = snapshot_not_refreshed_live_query_per_entry [OF h1 h2 h3 h4 h5 h6 h7]
  have c1: ?c1
    using concl by blast
  have c2: ?c2
    using concl n by simp
  have c3: ?c3
    using concl by blast
  have a1: "station_id_of example_float_str
      (waveform_entry ''NET'' ''STE'' ''BHZ'' PyNone PyNone) = Inr ''NET.STE''"
    by (simp add: eval_defs)
  have a2: "lookup_stat_coords
      [(PyStr ''NET.STE..BHZ'', coordinates PyNone PyNone PyNone PyNone),
       (PyStr ''NET.STE..BHN'', coordinates PyNone PyNone PyNone PyNone)]
      (waveform_entry ''NET'' ''STE'' ''BHZ'' PyNone PyNone) =
      Some (coordinates PyNone PyNone PyNone PyNone)"
    by (simp add: eval_defs)
  have a3: "null_latitude (coordinates PyNone PyNone PyNone PyNone)"
    by (simp add: null_latitude_def eval_defs)
  have a4: "null_latitude (waveform_entry ''NET'' ''STE'' ''BHZ'' PyNone PyNone)"
    by (simp add: null_latitude_def eval_defs)
  have a5: "cache_live [] ''NET.STE''
      [(''NET.STE'', coordinates (PyFloat 1) (PyFloat 2) (PyFloat 0) (PyFloat 0))] =
      (Inr (coordinates (PyFloat 1) (PyFloat 2) (PyFloat 0) (PyFloat 0)),
       [(''NET.STE'', coordinates (PyFloat 1) (PyFloat 2) (PyFloat 0) (PyFloat 0))])"
    by (simp add: cache_live_def)
  have a6: "true_latitude (coordinates (PyFloat 1) (PyFloat 2) (PyFloat 0) (PyFloat 0))"
    by (simp add: true_latitude_def eval_defs)
  have c4: ?c4
    using concl a1 h3 a2 a3 a4 a5 a6 by blast
  show ?thesis
    by (rule conjI [OF h1 conjI [OF h2 conjI [OF h3 conjI [OF h5 conjI [OF c1
          conjI [OF c2 conjI [OF c3 c4]]]]]]])
qed

end
